theory Spec2Isabelle
  imports Main "HOL-Library.Word" "HOL-Library.Monad_Syntax"
begin

unbundle bit_operations_syntax

section \<open>Bytes and arbitrary-precision integers\<close>

type_synonym byte = "8 word"
type_synonym bytes = "byte list"

text \<open>
  \<^verbatim>\<open>math/big\<close>: a \<^verbatim>\<open>*big.Int\<close> is an \<^typ>\<open>int\<close>. \<^verbatim>\<open>Bytes()\<close> returns the
  absolute value as a big-endian byte slice without leading zeros (empty for 0),
  \<^verbatim>\<open>SetBytes\<close> reads a big-endian unsigned value, \<^verbatim>\<open>BitLen()\<close> is the length of
  the absolute value in bits.
\<close>

fun nat_bytes :: "nat \<Rightarrow> bytes" where
  "nat_bytes n = (if n = 0 then [] else nat_bytes (n div 256) @ [of_nat (n mod 256)])"

declare nat_bytes.simps [simp del]

definition bytes_nat :: "bytes \<Rightarrow> nat" where
  "bytes_nat bs = foldl (\<lambda>a b. a * 256 + unat b) 0 bs"

fun nat_bitlen :: "nat \<Rightarrow> nat" where
  "nat_bitlen n = (if n = 0 then 0 else Suc (nat_bitlen (n div 2)))"

declare nat_bitlen.simps [simp del]

definition big_Bytes :: "int \<Rightarrow> bytes" where
  "big_Bytes x = nat_bytes (nat \<bar>x\<bar>)"

definition big_SetBytes :: "bytes \<Rightarrow> int" where
  "big_SetBytes bs = int (bytes_nat bs)"

definition big_BitLen :: "int \<Rightarrow> nat" where
  "big_BitLen x = nat_bitlen (nat \<bar>x\<bar>)"

section \<open>Curves and keys\<close>

text \<open>
  \<^verbatim>\<open>elliptic.CurveParams\<close> and the \<^verbatim>\<open>elliptic.Curve\<close> interface. Of the interface only
  \<^verbatim>\<open>Params()\<close> and the base-point multiplication are used here; the latter is a field
  of the curve object, so every theorem below holds for whatever arithmetic the curve
  library supplies. Go passes the scalar to \<^verbatim>\<open>ScalarBaseMult\<close> as big-endian bytes; the
  field takes the scalar itself.
\<close>

record curve_params =
  P :: int
  N :: int
  B :: int
  Gx :: int
  Gy :: int
  BitSize :: nat
  Name :: string

record curve =
  Params :: curve_params
  ScalarBaseMult :: "int \<Rightarrow> int \<times> int"

text \<open>
  \<^verbatim>\<open>sm2.PublicKey\<close> is \<^verbatim>\<open>{elliptic.Curve; X, Y *big.Int}\<close> and \<^verbatim>\<open>sm2.PrivateKey\<close> embeds
  it and adds \<^verbatim>\<open>D *big.Int\<close>. A \<^verbatim>\<open>nil\<close> key pointer is \<^const>\<open>None\<close>.
\<close>

record public_key =
  Curve :: curve
  X :: int
  Y :: int

record private_key = public_key +
  D :: int

text \<open>
  What a parser of the \<^verbatim>\<open>x509\<close> package hands back as \<^verbatim>\<open>interface{}\<close>: a value that the
  type assertions \<^verbatim>\<open>key.(*sm2.PrivateKey)\<close> and \<^verbatim>\<open>key.(*sm2.PublicKey)\<close> accept only when
  it is of that very kind. A key of another algorithm carries its algorithm identifiers.
\<close>

datatype any_key =
  SM2PrivateKey "private_key"
  | SM2PublicKey "public_key"
  | OtherKey "nat list list"

section \<open>Errors and results\<close>

text \<open>
  Errors of the collaborating libraries are opaque messages. The errors built in
  \<^verbatim>\<open>keys.go\<close> are named after the kind the specification gives them:
  \<^item> \<open>InvalidKey\<close>: "Invalid key. It must be different from nil." and its variants;
  \<^item> \<open>InvalidInput\<close>: "invalid PEM. It must be different from nil";
  \<^item> \<open>DecodeError\<close>: "failed decoding PEM. Block must be different from nil. [...]";
  \<^item> \<open>MissingPassword\<close>: "encrypted Key. Need a password", "invalid password. ...";
  \<^item> \<open>DecryptionError e\<close>: "failed PEM decryption [e]";
  \<^item> \<open>EncodingError e\<close>: "error marshaling ... key to asn1 [e]";
  \<^item> \<open>TypeMismatch\<close>: "key type error", "invalid public key format";
  \<^item> \<open>LibraryError e\<close>: a collaborator's error returned unchanged (\<^verbatim>\<open>return nil, err\<close>).
\<close>

type_synonym liberr = string

datatype error =
  InvalidKey
  | InvalidInput
  | DecodeError
  | MissingPassword
  | DecryptionError liberr
  | EncodingError liberr
  | TypeMismatch
  | LibraryError liberr

text \<open>
  An exporter returns bytes, returns an error, or panics (a slice expression out of
  range is a run-time panic in Go, not an error value).
\<close>

datatype 'a outcome = Ok 'a | Err error | Panic

section \<open>Fixed-width padding and point encoding\<close>

text \<open>
  Lines 52-54 and 91-93 of \<^verbatim>\<open>keys.go\<close>:
  \<^verbatim>\<open>padded := make([]byte, n); copy(padded[len(padded)-len(src):], src)\<close>.
  The slice expression panics when \<^verbatim>\<open>len(padded)-len(src)\<close> is negative.
\<close>

definition padded_copy :: "nat \<Rightarrow> bytes \<Rightarrow> bytes option" where
  "padded_copy n src =
     (if length src \<le> n then Some (replicate (n - length src) 0 @ src) else None)"

definition order_bytes :: "curve \<Rightarrow> nat" where
  "order_bytes c = (big_BitLen (N (Params c)) + 7) div 8"

definition paddedPrivateKey :: "private_key \<Rightarrow> bytes option" where
  "paddedPrivateKey k = padded_copy (order_bytes (Curve k)) (big_Bytes (D k))"

text \<open>
  \<^verbatim>\<open>elliptic.Marshal\<close> (Go standard library): the uncompressed form \<open>0x04 || X || Y\<close>,
  each coordinate filled into \<^verbatim>\<open>(BitSize+7)/8\<close> bytes; \<^verbatim>\<open>FillBytes\<close> panics on a
  coordinate that does not fit.
\<close>

definition field_bytes :: "curve \<Rightarrow> nat" where
  "field_bytes c = (BitSize (Params c) + 7) div 8"

definition elliptic_Marshal :: "curve \<Rightarrow> int \<Rightarrow> int \<Rightarrow> bytes option" where
  "elliptic_Marshal c x y =
     (case padded_copy (field_bytes c) (big_Bytes x) of
        None \<Rightarrow> None
      | Some xs \<Rightarrow>
          (case padded_copy (field_bytes c) (big_Bytes y) of
             None \<Rightarrow> None
           | Some ys \<Rightarrow> Some (4 # xs @ ys)))"

section \<open>ASN.1 structures and their DER encoding\<close>

definition oidNamedCurveSm2 :: "nat list" where
  "oidNamedCurveSm2 = [1, 2, 156, 10197, 1, 301]"

definition oidPublicKeyECDSA :: "nat list" where
  "oidPublicKeyECDSA = [1, 2, 840, 10045, 2, 1]"

text \<open>\<^verbatim>\<open>asn1.BitString\<close>, \<^verbatim>\<open>pkcs8Info\<close> and \<^verbatim>\<open>ecPrivateKey\<close> of \<^verbatim>\<open>keys.go\<close>. A \<^verbatim>\<open>nil\<close>
  object identifier is the empty list.\<close>

record BitString =
  Bytes :: bytes
  BitLength :: nat

record pkcs8Info =
  p8_Version :: int
  p8_PrivateKeyAlgorithm :: "nat list list"
  p8_PrivateKey :: bytes

record ecPrivateKey =
  ec_Version :: int
  ec_PrivateKey :: bytes
  ec_NamedCurveOID :: "nat list"
  ec_PublicKey :: BitString

text \<open>
  \<^verbatim>\<open>encoding/asn1\<close> (Go standard library), \<^verbatim>\<open>Marshal\<close>: every value is an identifier
  octet, a length and the content. A length below 128 is one octet; a longer one is
  \<open>0x80 | k\<close> followed by the \<open>k\<close> big-endian octets of the length.
\<close>

definition der_length :: "nat \<Rightarrow> bytes" where
  "der_length n =
     (if n < 128 then [of_nat n]
      else of_nat (128 + length (nat_bytes n)) # nat_bytes n)"

definition der_tlv :: "byte \<Rightarrow> bytes \<Rightarrow> bytes" where
  "der_tlv t c = t # der_length (length c) @ c"

definition tagInteger :: byte where "tagInteger = 0x02"
definition tagBitString :: byte where "tagBitString = 0x03"
definition tagOctetString :: byte where "tagOctetString = 0x04"
definition tagOID :: byte where "tagOID = 0x06"
definition tagSequence :: byte where "tagSequence = 0x30"
definition tagExplicit0 :: byte where "tagExplicit0 = 0xA0"
definition tagExplicit1 :: byte where "tagExplicit1 = 0xA1"

text \<open>INTEGER content: the shortest two's-complement form, big-endian
  (\<^verbatim>\<open>int64Encoder\<close>; \<^verbatim>\<open>i >> 8\<close> is the arithmetic shift, \<open>div\<close> on \<^typ>\<open>int\<close>).\<close>

function int_content :: "int \<Rightarrow> bytes" where
  "int_content i =
     (if - 128 \<le> i \<and> i \<le> 127 then [of_int i]
      else int_content (i div 256) @ [of_int i])"
  by pat_completeness auto
termination
  by (relation "measure (\<lambda>i. nat \<bar>i\<bar>)") auto

declare int_content.simps [simp del]

text \<open>OBJECT IDENTIFIER content (\<^verbatim>\<open>oidEncoder\<close>, \<^verbatim>\<open>appendBase128Int\<close>): the first two arcs
  as \<open>40 * a + b\<close>, every value in base 128 with the top bit set on all octets but the
  last. \<^verbatim>\<open>makeObjectIdentifier\<close> rejects an identifier with fewer than two arcs or with
  leading arcs out of range.\<close>

fun base128_more :: "nat \<Rightarrow> bytes" where
  "base128_more m =
     (if m = 0 then [] else base128_more (m div 128) @ [of_nat (128 + m mod 128)])"

declare base128_more.simps [simp del]

definition base128 :: "nat \<Rightarrow> bytes" where
  "base128 n = base128_more (n div 128) @ [of_nat (n mod 128)]"

definition oid_content :: "nat list \<Rightarrow> liberr + bytes" where
  "oid_content oid =
     (if length oid < 2 \<or> oid ! 0 > 2 \<or> (oid ! 0 < 2 \<and> oid ! 1 \<ge> 40)
      then Inl ''asn1: structure error: invalid object identifier''
      else Inr (base128 (oid ! 0 * 40 + oid ! 1) @ concat (map base128 (drop 2 oid))))"

text \<open>BIT STRING content (\<^verbatim>\<open>bitStringEncoder\<close>): the number of unused bits, then all of
  \<^verbatim>\<open>Bytes\<close>.\<close>

definition bitstring_content :: "BitString \<Rightarrow> bytes" where
  "bitstring_content b = of_nat ((8 - BitLength b mod 8) mod 8) # Bytes b"

text \<open>\<^verbatim>\<open>asn1.Marshal\<close> of an \<^verbatim>\<open>ecPrivateKey\<close>: a SEQUENCE of the INTEGER version, the OCTET
  STRING key, and the two optional fields under their explicit tags 0 and 1. An optional
  field is left out when it holds its zero value.\<close>

definition asn1_Marshal_ecPrivateKey :: "ecPrivateKey \<Rightarrow> liberr + bytes" where
  "asn1_Marshal_ecPrivateKey v =
     (case (if ec_NamedCurveOID v = [] then Inr []
            else (case oid_content (ec_NamedCurveOID v) of
                    Inl e \<Rightarrow> Inl e
                  | Inr c \<Rightarrow> Inr (der_tlv tagExplicit0 (der_tlv tagOID c)))) of
        Inl e \<Rightarrow> Inl e
      | Inr oidField \<Rightarrow>
          Inr (der_tlv tagSequence
                (der_tlv tagInteger (int_content (ec_Version v))
                 @ der_tlv tagOctetString (ec_PrivateKey v)
                 @ oidField
                 @ (if ec_PublicKey v = \<lparr>Bytes = [], BitLength = 0\<rparr> then []
                    else der_tlv tagExplicit1
                           (der_tlv tagBitString (bitstring_content (ec_PublicKey v)))))))"

text \<open>\<^verbatim>\<open>asn1.Marshal\<close> of a \<^verbatim>\<open>pkcs8Info\<close>: a SEQUENCE of the INTEGER version, the
  SEQUENCE OF object identifiers, and the OCTET STRING key.\<close>

fun marshal_oids :: "nat list list \<Rightarrow> liberr + bytes" where
  "marshal_oids [] = Inr []"
| "marshal_oids (x # xs) =
     (case oid_content x of
        Inl e \<Rightarrow> Inl e
      | Inr c \<Rightarrow>
          (case marshal_oids xs of
             Inl e \<Rightarrow> Inl e
           | Inr r \<Rightarrow> Inr (der_tlv tagOID c @ r)))"

definition asn1_Marshal_pkcs8Info :: "pkcs8Info \<Rightarrow> liberr + bytes" where
  "asn1_Marshal_pkcs8Info v =
     (case marshal_oids (p8_PrivateKeyAlgorithm v) of
        Inl e \<Rightarrow> Inl e
      | Inr algs \<Rightarrow>
          Inr (der_tlv tagSequence
                (der_tlv tagInteger (int_content (p8_Version v))
                 @ der_tlv tagSequence algs
                 @ der_tlv tagOctetString (p8_PrivateKey v))))"

section \<open>PEM blocks and the collaborators\<close>

text \<open>\<^verbatim>\<open>pem.Block\<close>; the header map is kept as an association list.\<close>

record pem_Block =
  pem_Type :: string
  pem_Headers :: "(string \<times> string) list"
  pem_Bytes :: bytes

datatype PEMCipher =
  PEMCipherDES | PEMCipher3DES | PEMCipherAES128 | PEMCipherAES192 | PEMCipherAES256

text \<open>
  The functions \<^verbatim>\<open>keys.go\<close> calls in \<^verbatim>\<open>encoding/pem\<close> and in the repository's \<^verbatim>\<open>x509\<close>
  package. They are parameters of the model: the PEM text framing, the password-based
  cipher and the DER parsers are not defined in \<^verbatim>\<open>keys.go\<close>. \<^verbatim>\<open>EncryptPEMBlock\<close> takes
  the bytes it draws from \<^verbatim>\<open>rand.Reader\<close> as its first argument.
\<close>

record collab =
  pem_EncodeToMemory :: "pem_Block \<Rightarrow> bytes"
  pem_Decode :: "bytes \<Rightarrow> pem_Block option"
  EncryptPEMBlock :: "bytes \<Rightarrow> string \<Rightarrow> bytes \<Rightarrow> bytes \<Rightarrow> PEMCipher \<Rightarrow> liberr + pem_Block"
  DecryptPEMBlock :: "pem_Block \<Rightarrow> bytes \<Rightarrow> liberr + bytes"
  IsEncryptedPEMBlock :: "pem_Block \<Rightarrow> bool"
  ParsePKCS8PrivateKey :: "bytes \<Rightarrow> liberr + any_key"
  MarshalPKIXPublicKey :: "public_key \<Rightarrow> liberr + bytes"
  ParsePKIXPublicKey :: "bytes \<Rightarrow> liberr + any_key"

section \<open>The exporters and importers of \<^verbatim>\<open>keys.go\<close>\<close>

definition PrivateKeyToEncryptedPEM ::
    "collab \<Rightarrow> bytes \<Rightarrow> private_key option \<Rightarrow> bytes \<Rightarrow> bytes outcome" where
  "PrivateKeyToEncryptedPEM env rnd priKey pwd =
     (case priKey of
        None \<Rightarrow> Err InvalidKey
      | Some k \<Rightarrow>
          (case paddedPrivateKey k of
             None \<Rightarrow> Panic
           | Some padded \<Rightarrow>
               (case elliptic_Marshal (Curve k) (X k) (Y k) of
                  None \<Rightarrow> Panic
                | Some pt \<Rightarrow>
                    (case asn1_Marshal_ecPrivateKey
                            \<lparr>ec_Version = 1, ec_PrivateKey = padded,
                             ec_NamedCurveOID = oidNamedCurveSm2,
                             ec_PublicKey = \<lparr>Bytes = pt, BitLength = 0\<rparr>\<rparr> of
                       Inl e \<Rightarrow> Err (LibraryError e)
                     | Inr raw \<Rightarrow>
                         (case EncryptPEMBlock env rnd ''PRIVATE KEY'' raw pwd
                                 PEMCipherAES256 of
                            Inl e \<Rightarrow> Err (LibraryError e)
                          | Inr block \<Rightarrow> Ok (pem_EncodeToMemory env block))))))"

definition PrivateKeyToPEM ::
    "collab \<Rightarrow> bytes \<Rightarrow> private_key option \<Rightarrow> bytes \<Rightarrow> bytes outcome" where
  "PrivateKeyToPEM env rnd privateKey pwd =
     (if pwd \<noteq> [] then PrivateKeyToEncryptedPEM env rnd privateKey pwd
      else
        (case privateKey of
           None \<Rightarrow> Err InvalidKey
         | Some k \<Rightarrow>
             (case paddedPrivateKey k of
                None \<Rightarrow> Panic
              | Some padded \<Rightarrow>
                  (case elliptic_Marshal (Curve k) (X k) (Y k) of
                     None \<Rightarrow> Panic
                   | Some pt \<Rightarrow>
                       (case asn1_Marshal_ecPrivateKey
                               \<lparr>ec_Version = 1, ec_PrivateKey = padded,
                                ec_NamedCurveOID = [],
                                ec_PublicKey = \<lparr>Bytes = pt, BitLength = 0\<rparr>\<rparr> of
                          Inl e \<Rightarrow> Err (EncodingError e)
                        | Inr asn1Bytes \<Rightarrow>
                            (case asn1_Marshal_pkcs8Info
                                    \<lparr>p8_Version = 0,
                                     p8_PrivateKeyAlgorithm =
                                       [oidPublicKeyECDSA, oidNamedCurveSm2],
                                     p8_PrivateKey = asn1Bytes\<rparr> of
                               Inl e \<Rightarrow> Err (EncodingError e)
                             | Inr pkcs8Bytes \<Rightarrow>
                                 Ok (pem_EncodeToMemory env
                                       \<lparr>pem_Type = ''PRIVATE KEY'', pem_Headers = [],
                                        pem_Bytes = pkcs8Bytes\<rparr>)))))))"

definition PEMtoPrivateKey :: "collab \<Rightarrow> bytes \<Rightarrow> bytes \<Rightarrow> error + private_key" where
  "PEMtoPrivateKey env raw pwd =
     (if raw = [] then Inl InvalidInput
      else
        (case pem_Decode env raw of
           None \<Rightarrow> Inl DecodeError
         | Some block \<Rightarrow>
             if IsEncryptedPEMBlock env block then
               (if pwd = [] then Inl MissingPassword
                else
                  (case DecryptPEMBlock env block pwd of
                     Inl e \<Rightarrow> Inl (DecryptionError e)
                   | Inr decrypted \<Rightarrow>
                       (case ParsePKCS8PrivateKey env decrypted of
                          Inl e \<Rightarrow> Inl (LibraryError e)
                        | Inr key \<Rightarrow>
                            (case key of
                               SM2PrivateKey sm2Key \<Rightarrow> Inr sm2Key
                             | _ \<Rightarrow> Inl TypeMismatch))))
             else
               (case ParsePKCS8PrivateKey env (pem_Bytes block) of
                  Inl e \<Rightarrow> Inl (LibraryError e)
                | Inr key \<Rightarrow>
                    (case key of
                       SM2PrivateKey sm2Key \<Rightarrow> Inr sm2Key
                     | _ \<Rightarrow> Inl TypeMismatch))))"

definition PublicKeyToEncryptedPEM ::
    "collab \<Rightarrow> bytes \<Rightarrow> public_key option \<Rightarrow> bytes \<Rightarrow> bytes outcome" where
  "PublicKeyToEncryptedPEM env rnd publicKey pwd =
     (case publicKey of
        None \<Rightarrow> Err InvalidKey
      | Some q \<Rightarrow>
          if pwd = [] then Err MissingPassword
          else
            (case MarshalPKIXPublicKey env q of
               Inl e \<Rightarrow> Err (LibraryError e)
             | Inr raw \<Rightarrow>
                 (case EncryptPEMBlock env rnd ''PUBLIC KEY'' raw pwd PEMCipherAES256 of
                    Inl e \<Rightarrow> Err (LibraryError e)
                  | Inr block \<Rightarrow> Ok (pem_EncodeToMemory env block))))"

definition PublicKeyToPEM ::
    "collab \<Rightarrow> bytes \<Rightarrow> public_key option \<Rightarrow> bytes \<Rightarrow> bytes outcome" where
  "PublicKeyToPEM env rnd publicKey pwd =
     (if pwd \<noteq> [] then PublicKeyToEncryptedPEM env rnd publicKey pwd
      else
        (case publicKey of
           None \<Rightarrow> Err InvalidKey
         | Some q \<Rightarrow>
             (case MarshalPKIXPublicKey env q of
                Inl e \<Rightarrow> Err (LibraryError e)
              | Inr PubASN1 \<Rightarrow>
                  Ok (pem_EncodeToMemory env
                        \<lparr>pem_Type = ''PUBLIC KEY'', pem_Headers = [],
                         pem_Bytes = PubASN1\<rparr>))))"

definition PEMtoPublicKey :: "collab \<Rightarrow> bytes \<Rightarrow> bytes \<Rightarrow> error + public_key" where
  "PEMtoPublicKey env raw pwd =
     (if raw = [] then Inl InvalidInput
      else
        (case pem_Decode env raw of
           None \<Rightarrow> Inl DecodeError
         | Some block \<Rightarrow>
             if IsEncryptedPEMBlock env block then
               (if pwd = [] then Inl MissingPassword
                else
                  (case DecryptPEMBlock env block pwd of
                     Inl e \<Rightarrow> Inl (DecryptionError e)
                   | Inr decrypted \<Rightarrow>
                       (case ParsePKIXPublicKey env decrypted of
                          Inl e \<Rightarrow> Inl (LibraryError e)
                        | Inr key \<Rightarrow>
                            (case key of
                               SM2PublicKey sm2Pk \<Rightarrow> Inr sm2Pk
                             | _ \<Rightarrow> Inl TypeMismatch))))
             else
               (case ParsePKIXPublicKey env (pem_Bytes block) of
                  Inl e \<Rightarrow> Inl (LibraryError e)
                | Inr key \<Rightarrow>
                    (case key of
                       SM2PublicKey sm2Pk \<Rightarrow> Inr sm2Pk
                     | _ \<Rightarrow> Inl TypeMismatch))))"

section \<open>The DER reader and the parsers of the \<^verbatim>\<open>x509\<close> package\<close>

text \<open>
  Modelled from the spec: the reader \<^verbatim>\<open>parseDER(bytes) -> structure\<close> of section 6. It is
  the inverse of the writer above: an identifier octet, a short or long length, and as
  many content octets; what follows the value is handed back.
\<close>

definition der_read_length :: "bytes \<Rightarrow> (nat \<times> bytes) option" where
  "der_read_length bs =
     (case bs of
        [] \<Rightarrow> None
      | b # rest \<Rightarrow>
          if b < 0x80 then Some (unat b, rest)
          else
            (let k = unat b - 128
             in if k = 0 \<or> length rest < k then None
                else Some (bytes_nat (take k rest), drop k rest)))"

definition der_read :: "bytes \<Rightarrow> (byte \<times> bytes \<times> bytes) option" where
  "der_read bs =
     (case bs of
        [] \<Rightarrow> None
      | t # rest \<Rightarrow>
          (case der_read_length rest of
             None \<Rightarrow> None
           | Some (n, rest') \<Rightarrow>
               if length rest' < n then None
               else Some (t, take n rest', drop n rest')))"

definition der_expect :: "byte \<Rightarrow> bytes \<Rightarrow> (bytes \<times> bytes) option" where
  "der_expect t bs =
     (case der_read bs of
        None \<Rightarrow> None
      | Some (t', c, rest) \<Rightarrow> if t' = t then Some (c, rest) else None)"

definition der_optional :: "byte \<Rightarrow> bytes \<Rightarrow> bytes option \<times> bytes" where
  "der_optional t bs =
     (case der_expect t bs of
        None \<Rightarrow> (None, bs)
      | Some (c, rest) \<Rightarrow> (Some c, rest))"

text \<open>
  Modelled from the spec: the content readers of \<^verbatim>\<open>parseDER\<close> for the primitive types of
  section 6, the inverses of the content writers above: a two's-complement INTEGER, the
  base-128 arcs of an OBJECT IDENTIFIER, and a BIT STRING behind its count of unused
  bits.
\<close>

definition int_of_content :: "bytes \<Rightarrow> int option" where
  "int_of_content c =
     (case c of
        [] \<Rightarrow> None
      | b # bs \<Rightarrow> Some (foldl (\<lambda>a x. a * 256 + uint x) (sint b) bs))"

fun oid_arcs :: "nat \<Rightarrow> bool \<Rightarrow> bytes \<Rightarrow> nat list option" where
  "oid_arcs acc mid [] = (if mid then None else Some [])"
| "oid_arcs acc mid (b # bs) =
     (let acc' = acc * 128 + unat (b AND 0x7F)
      in if b AND 0x80 \<noteq> 0 then oid_arcs acc' True bs
         else map_option ((#) acc') (oid_arcs 0 False bs))"

definition oid_of_content :: "bytes \<Rightarrow> nat list option" where
  "oid_of_content c =
     (case oid_arcs 0 False c of
        None \<Rightarrow> None
      | Some [] \<Rightarrow> None
      | Some (v # vs) \<Rightarrow>
          Some ((if v < 80 then [v div 40, v mod 40] else [2, v - 80]) @ vs))"

definition bitstring_of_content :: "bytes \<Rightarrow> BitString option" where
  "bitstring_of_content c =
     (case c of
        [] \<Rightarrow> None
      | p # bs \<Rightarrow>
          if 7 < unat p \<or> (bs = [] \<and> p \<noteq> 0) then None
          else Some \<lparr>Bytes = bs, BitLength = 8 * length bs - unat p\<rparr>)"

text \<open>
  Modelled from the spec: the reader of a SEQUENCE OF OBJECT IDENTIFIER (section 6); the
  first argument bounds the number of elements (the content's length is always enough).
\<close>

fun read_oids :: "nat \<Rightarrow> bytes \<Rightarrow> nat list list option" where
  "read_oids 0 bs = (if bs = [] then Some [] else None)"
| "read_oids (Suc n) bs =
     (if bs = [] then Some []
      else
        (case der_expect tagOID bs of
           None \<Rightarrow> None
         | Some (c, rest) \<Rightarrow>
             (case oid_of_content c of
                None \<Rightarrow> None
              | Some oid \<Rightarrow> map_option ((#) oid) (read_oids n rest))))"

text \<open>
  Modelled from the spec: the layout of the OuterKeyContainer in section 6, a SEQUENCE of
  \<open>INTEGER version\<close>, a SEQUENCE OF OBJECT IDENTIFIER and an OCTET STRING holding the
  serialized EncodedPrivateKey.
\<close>

definition parse_pkcs8Info :: "bytes \<Rightarrow> pkcs8Info option" where
  "parse_pkcs8Info der =
     do {
       (body, rest) \<leftarrow> der_expect tagSequence der;
       (v, r1) \<leftarrow> der_expect tagInteger body;
       ver \<leftarrow> int_of_content v;
       (algs, r2) \<leftarrow> der_expect tagSequence r1;
       oids \<leftarrow> read_oids (length algs) algs;
       (key, r3) \<leftarrow> der_expect tagOctetString r2;
       if rest = [] \<and> r3 = []
       then Some \<lparr>p8_Version = ver, p8_PrivateKeyAlgorithm = oids, p8_PrivateKey = key\<rparr>
       else None
     }"

text \<open>
  Modelled from the spec: the layout of the EncodedPrivateKey in section 6, a SEQUENCE of
  \<open>INTEGER version\<close>, \<open>OCTET STRING privateKey\<close>, the optional
  \<open>[0] EXPLICIT OBJECT IDENTIFIER\<close> and the optional \<open>[1] EXPLICIT BIT STRING\<close>.
\<close>

definition parse_ecPrivateKey :: "bytes \<Rightarrow> ecPrivateKey option" where
  "parse_ecPrivateKey der =
     do {
       (body, rest) \<leftarrow> der_expect tagSequence der;
       (v, r1) \<leftarrow> der_expect tagInteger body;
       ver \<leftarrow> int_of_content v;
       (key, r2) \<leftarrow> der_expect tagOctetString r1;
       (f0, r3) \<leftarrow> Some (der_optional tagExplicit0 r2);
       oid \<leftarrow> (case f0 of
                 None \<Rightarrow> Some []
               | Some c \<Rightarrow>
                   do {
                     (oc, r) \<leftarrow> der_expect tagOID c;
                     if r = [] then oid_of_content oc else None
                   });
       (f1, r4) \<leftarrow> Some (der_optional tagExplicit1 r3);
       pub \<leftarrow> (case f1 of
                 None \<Rightarrow> Some \<lparr>Bytes = [], BitLength = 0\<rparr>
               | Some c \<Rightarrow>
                   do {
                     (bc, r) \<leftarrow> der_expect tagBitString c;
                     if r = [] then bitstring_of_content bc else None
                   });
       if rest = [] \<and> r4 = []
       then Some \<lparr>ec_Version = ver, ec_PrivateKey = key, ec_NamedCurveOID = oid,
                  ec_PublicKey = pub\<rparr>
       else None
     }"

text \<open>
  Modelled from the spec: \<^verbatim>\<open>x509.ParsePKCS8PrivateKey\<close>, which is not part of \<^verbatim>\<open>keys.go\<close>.
  Section 4.2: it "parses the (now-plaintext) DER payload as a PKCS8-style structure;
  extracts and interprets the inner key material as the curve-specific private key",
  and the key comes back "with D, X, Y, and curve identifier populated", the point being
  the one derived from the scalar (section 3). A container naming another algorithm
  parses to a key of another kind (section 7, TypeMismatch: "wrong algorithm in the
  container"). The argument \<open>sm2\<close> is the curve object of the \<^verbatim>\<open>sm2\<close> package.
\<close>

definition ParsePKCS8PrivateKey_spec :: "curve \<Rightarrow> bytes \<Rightarrow> liberr + any_key" where
  "ParsePKCS8PrivateKey_spec sm2 der =
     (case parse_pkcs8Info der of
        None \<Rightarrow> Inl ''asn1: structure error''
      | Some c \<Rightarrow>
          if p8_PrivateKeyAlgorithm c = [oidPublicKeyECDSA, oidNamedCurveSm2] then
            (case parse_ecPrivateKey (p8_PrivateKey c) of
               None \<Rightarrow> Inl ''x509: failed to parse EC private key''
             | Some ec \<Rightarrow>
                 if ec_Version ec \<noteq> 1 then Inl ''x509: unknown EC private key version''
                 else
                   (let d = big_SetBytes (ec_PrivateKey ec);
                        pt = ScalarBaseMult sm2 d
                    in Inr (SM2PrivateKey
                              \<lparr>Curve = sm2, X = fst pt, Y = snd pt, D = d\<rparr>)))
          else Inr (OtherKey (p8_PrivateKeyAlgorithm c)))"

text \<open>
  Modelled from the spec: \<^verbatim>\<open>x509.MarshalPKIXPublicKey\<close> and \<^verbatim>\<open>x509.ParsePKIXPublicKey\<close>,
  which are not part of \<^verbatim>\<open>keys.go\<close>. Section 4.3: "only one DER shape exists for public
  keys (a standard public-key-info structure)", that is a SEQUENCE of the algorithm
  identifiers and the BIT STRING of the uncompressed point; section 4.4: the parser
  "parses a public-key-info structure and extracts curve identifier and point". Curve
  membership is not validated (section 3).
\<close>

definition MarshalPKIXPublicKey_spec :: "public_key \<Rightarrow> liberr + bytes" where
  "MarshalPKIXPublicKey_spec q =
     (case elliptic_Marshal (Curve q) (X q) (Y q) of
        None \<Rightarrow> Inl ''x509: invalid elliptic curve public key''
      | Some pt \<Rightarrow>
          (case marshal_oids [oidPublicKeyECDSA, oidNamedCurveSm2] of
             Inl e \<Rightarrow> Inl e
           | Inr algs \<Rightarrow>
               Inr (der_tlv tagSequence
                     (der_tlv tagSequence algs
                      @ der_tlv tagBitString
                          (bitstring_content
                             \<lparr>Bytes = pt, BitLength = 8 * length pt\<rparr>)))))"

text \<open>
  Modelled from the spec: the reader of the uncompressed point encoding of the glossary,
  \<open>0x04\<close> followed by the two coordinates at the field width of the curve.
\<close>

definition parse_point :: "curve \<Rightarrow> bytes \<Rightarrow> (int \<times> int) option" where
  "parse_point c data =
     (case data of
        [] \<Rightarrow> None
      | t # xy \<Rightarrow>
          if t = 4 \<and> length xy = 2 * field_bytes c
          then Some (big_SetBytes (take (field_bytes c) xy),
                     big_SetBytes (drop (field_bytes c) xy))
          else None)"

text \<open>
  Modelled from the spec: the reader of the public-key-info structure that
  \<^verbatim>\<open>x509.MarshalPKIXPublicKey\<close> writes.
\<close>

definition parse_publicKeyInfo :: "bytes \<Rightarrow> (nat list list \<times> BitString) option" where
  "parse_publicKeyInfo der =
     do {
       (body, rest) \<leftarrow> der_expect tagSequence der;
       (algs, r1) \<leftarrow> der_expect tagSequence body;
       oids \<leftarrow> read_oids (length algs) algs;
       (bc, r2) \<leftarrow> der_expect tagBitString r1;
       pub \<leftarrow> bitstring_of_content bc;
       if rest = [] \<and> r2 = [] then Some (oids, pub) else None
     }"

text \<open>
  Modelled from the spec: \<^verbatim>\<open>x509.ParsePKIXPublicKey\<close> (section 4.4). As for private keys,
  a structure naming another algorithm parses to a key of another kind.
\<close>

definition ParsePKIXPublicKey_spec :: "curve \<Rightarrow> bytes \<Rightarrow> liberr + any_key" where
  "ParsePKIXPublicKey_spec sm2 der =
     (case parse_publicKeyInfo der of
        None \<Rightarrow> Inl ''asn1: structure error''
      | Some (oids, pub) \<Rightarrow>
          if oids = [oidPublicKeyECDSA, oidNamedCurveSm2] then
            (case parse_point sm2 (Bytes pub) of
               None \<Rightarrow> Inl ''x509: failed to unmarshal elliptic curve point''
             | Some (x, y) \<Rightarrow> Inr (SM2PublicKey \<lparr>Curve = sm2, X = x, Y = y\<rparr>))
          else Inr (OtherKey oids))"

section \<open>Valid keys and the contracts of the collaborators\<close>

text \<open>
  A coordinate fits \<open>w\<close> bytes when it is a natural number below \<open>256 ^ w\<close>. The widths
  of a curve are Go \<^verbatim>\<open>int\<close>s; the bound below keeps every DER length that occurs far
  below the \<open>126\<close> length octets that the first length octet can announce.
\<close>

definition fits :: "nat \<Rightarrow> int \<Rightarrow> bool" where
  "fits w x \<longleftrightarrow> 0 \<le> x \<and> x < 256 ^ w"

definition sized_curve :: "curve \<Rightarrow> bool" where
  "sized_curve c \<longleftrightarrow> order_bytes c < 2 ^ 31 \<and> field_bytes c < 2 ^ 31"

text \<open>
  A valid SM2 public key: its curve is the curve object \<open>sm2\<close> of the \<^verbatim>\<open>sm2\<close> package and
  its coordinates fit the field width. A valid SM2 private key is moreover one whose
  scalar lies in \<open>[1, N-1]\<close> and whose point is the base-point multiple of the scalar.
\<close>

definition valid_public_key :: "curve \<Rightarrow> 'a public_key_scheme \<Rightarrow> bool" where
  "valid_public_key sm2 q \<longleftrightarrow>
     Curve q = sm2 \<and> sized_curve sm2
     \<and> fits (field_bytes sm2) (X q) \<and> fits (field_bytes sm2) (Y q)"

definition valid_private_key :: "curve \<Rightarrow> private_key \<Rightarrow> bool" where
  "valid_private_key sm2 k \<longleftrightarrow>
     valid_public_key sm2 k \<and> 1 \<le> D k \<and> D k < N (Params sm2)
     \<and> ScalarBaseMult sm2 (D k) = (X k, Y k)"

text \<open>
  The contracts of section 6 that the round trips rest on. The PEM framing carries a
  block faithfully: \<^verbatim>\<open>pem.Decode\<close> gives back the block that \<^verbatim>\<open>pem.EncodeToMemory\<close> wrote,
  and the text is not empty. A block written without headers is not marked encrypted.
  Under a non-empty password, \<^verbatim>\<open>EncryptPEMBlock\<close> with AES-256 returns a block of the
  given type that is marked encrypted, that the PEM framing carries faithfully, and that
  \<^verbatim>\<open>DecryptPEMBlock\<close> opens under the same password.
\<close>

definition plain_block :: "string \<Rightarrow> bytes \<Rightarrow> pem_Block" where
  "plain_block t der = \<lparr>pem_Type = t, pem_Headers = [], pem_Bytes = der\<rparr>"

definition pem_faithful :: "collab \<Rightarrow> pem_Block \<Rightarrow> bool" where
  "pem_faithful env b \<longleftrightarrow>
     pem_EncodeToMemory env b \<noteq> []
     \<and> pem_Decode env (pem_EncodeToMemory env b) = Some b"

definition key_block_type :: "string \<Rightarrow> bool" where
  "key_block_type t \<longleftrightarrow> t = ''PRIVATE KEY'' \<or> t = ''PUBLIC KEY''"

definition collab_contract :: "collab \<Rightarrow> bool" where
  "collab_contract env \<longleftrightarrow>
     (\<forall>t der. key_block_type t \<longrightarrow>
        pem_faithful env (plain_block t der)
        \<and> \<not> IsEncryptedPEMBlock env (plain_block t der))
     \<and> (\<forall>rnd t raw pwd. key_block_type t \<and> pwd \<noteq> [] \<longrightarrow>
          (\<exists>b. EncryptPEMBlock env rnd t raw pwd PEMCipherAES256 = Inr b
               \<and> pem_Type b = t
               \<and> pem_faithful env b
               \<and> IsEncryptedPEMBlock env b
               \<and> DecryptPEMBlock env b pwd = Inr raw))"

text \<open>The parsers and the public-key marshaller of the \<^verbatim>\<open>x509\<close> package behave as the
  specification describes them, for the curve object \<open>sm2\<close>.\<close>

definition x509_as_specified :: "collab \<Rightarrow> curve \<Rightarrow> bool" where
  "x509_as_specified env sm2 \<longleftrightarrow>
     ParsePKCS8PrivateKey env = ParsePKCS8PrivateKey_spec sm2
     \<and> MarshalPKIXPublicKey env = MarshalPKIXPublicKey_spec
     \<and> ParsePKIXPublicKey env = ParsePKIXPublicKey_spec sm2"

text \<open>
  A key can be exported when its scalar fits the width of the curve order and its
  coordinates fit the field width: the padding copy and \<^verbatim>\<open>elliptic.Marshal\<close> then stay in
  bounds. Every valid key can be exported.
\<close>

definition exportable :: "private_key \<Rightarrow> bool" where
  "exportable k \<longleftrightarrow>
     length (big_Bytes (D k)) \<le> order_bytes (Curve k)
     \<and> length (big_Bytes (X k)) \<le> field_bytes (Curve k)
     \<and> length (big_Bytes (Y k)) \<le> field_bytes (Curve k)"

section \<open>The DER layouts of the specification\<close>

text \<open>
  Section 6 of the specification, written with the DER writer: the EncodedPrivateKey is a
  SEQUENCE of \<open>INTEGER version\<close> (always 1), \<open>OCTET STRING privateKey\<close>, the optional
  \<open>[0] EXPLICIT OBJECT IDENTIFIER\<close> and \<open>[1] EXPLICIT BIT STRING publicKey\<close> (no unused
  bits); the OuterKeyContainer is a SEQUENCE of \<open>INTEGER version\<close> (0), the SEQUENCE OF
  the two object identifiers \<open>1.2.840.10045.2.1\<close> and \<open>1.2.156.10197.1.301\<close>, and the
  OCTET STRING holding the serialized EncodedPrivateKey. A fixed-width byte sequence is
  the big-endian encoding zero-padded on the left; the uncompressed point encoding is
  \<open>0x04\<close> followed by the two coordinates at the field width. The exporters are
  compared with these layouts below.
\<close>

definition fixed_width :: "nat \<Rightarrow> int \<Rightarrow> bytes" where
  "fixed_width w x = replicate (w - length (big_Bytes x)) 0 @ big_Bytes x"

definition uncompressed_point :: "nat \<Rightarrow> int \<Rightarrow> int \<Rightarrow> bytes" where
  "uncompressed_point w x y = 4 # fixed_width w x @ fixed_width w y"

definition ecPublicKey_oid_octets :: bytes where
  "ecPublicKey_oid_octets = [0x2A, 0x86, 0x48, 0xCE, 0x3D, 0x02, 0x01]"

definition sm2_oid_octets :: bytes where
  "sm2_oid_octets = [0x2A, 0x81, 0x1C, 0xCF, 0x55, 0x01, 0x82, 0x2D]"

definition EncodedPrivateKey_layout :: "bytes \<Rightarrow> bytes option \<Rightarrow> bytes \<Rightarrow> bytes" where
  "EncodedPrivateKey_layout priv curveOid pub =
     der_tlv tagSequence
       (der_tlv tagInteger [1]
        @ der_tlv tagOctetString priv
        @ (case curveOid of
             None \<Rightarrow> []
           | Some c \<Rightarrow> der_tlv tagExplicit0 (der_tlv tagOID c))
        @ der_tlv tagExplicit1 (der_tlv tagBitString (0 # pub)))"

definition OuterKeyContainer_layout :: "bytes \<Rightarrow> bytes" where
  "OuterKeyContainer_layout inner =
     der_tlv tagSequence
       (der_tlv tagInteger [0]
        @ der_tlv tagSequence
            (der_tlv tagOID ecPublicKey_oid_octets @ der_tlv tagOID sm2_oid_octets)
        @ der_tlv tagOctetString inner)"

section \<open>A sample instance of the collaborators\<close>

text \<open>
  The theorems below hold for every curve object and every collaborator that keeps the
  contracts. To show that the contracts can be kept, and to run the exporters and
  importers on concrete keys, here is one instance: the parameters of the SM2 curve with
  textbook affine double-and-add, a framing that writes each field of a block octet by
  octet behind a marker instead of base64 text, and a keyed mask with a check octet in
  place of AES.
\<close>

definition sample_params :: curve_params where
  "sample_params =
     \<lparr>P = 0xFFFFFFFEFFFFFFFFFFFFFFFFFFFFFFFFFFFFFFFF00000000FFFFFFFFFFFFFFFF,
      N = 0xFFFFFFFEFFFFFFFFFFFFFFFFFFFFFFFF7203DF6B21C6052B53BBF40939D54123,
      B = 0x28E9FA9E9D9F5E344D5A9E4BCF6509A7F39789F515AB8F92DDBCBD414D940E93,
      Gx = 0x32C4AE2C1F1981195F9904466A39C9948FE30BBFF2660BE1715A4589334C74C7,
      Gy = 0xBC3736A2F4F6779C59BDCEE36B692153D0A9877CC62A474002DF32E52139F0A0,
      BitSize = 256,
      Name = ''SM2-P-256''\<rparr>"

fun mod_pow :: "int \<Rightarrow> int \<Rightarrow> nat \<Rightarrow> int" where
  "mod_pow p a e =
     (if e = 0 then 1 mod p
      else (let h = mod_pow p a (e div 2); s = h * h mod p
            in if odd e then s * a mod p else s))"

declare mod_pow.simps [simp del]

definition mod_inv :: "int \<Rightarrow> int \<Rightarrow> int" where
  "mod_inv p a = mod_pow p (a mod p) (nat (p - 2))"

definition pt_double :: "int \<Rightarrow> (int \<times> int) option \<Rightarrow> (int \<times> int) option" where
  "pt_double p pt =
     (case pt of
        None \<Rightarrow> None
      | Some (x, y) \<Rightarrow>
          if y mod p = 0 then None
          else (let l = (3 * x * x + (p - 3)) * mod_inv p (2 * y) mod p;
                    x3 = (l * l - 2 * x) mod p
                in Some (x3, (l * (x - x3) - y) mod p)))"

definition pt_add ::
    "int \<Rightarrow> (int \<times> int) option \<Rightarrow> (int \<times> int) option \<Rightarrow> (int \<times> int) option" where
  "pt_add p a b =
     (case a of
        None \<Rightarrow> b
      | Some (x1, y1) \<Rightarrow>
          (case b of
             None \<Rightarrow> a
           | Some (x2, y2) \<Rightarrow>
               if x1 = x2 then (if (y1 + y2) mod p = 0 then None else pt_double p a)
               else (let l = (y2 - y1) * mod_inv p (x2 - x1) mod p;
                         x3 = (l * l - x1 - x2) mod p
                     in Some (x3, (l * (x1 - x3) - y1) mod p))))"

fun pt_mult :: "int \<Rightarrow> (int \<times> int) option \<Rightarrow> nat \<Rightarrow> (int \<times> int) option" where
  "pt_mult p g n =
     (if n = 0 then None
      else (let h = pt_double p (pt_mult p g (n div 2))
            in if odd n then pt_add p h g else h))"

declare pt_mult.simps [simp del]

definition sample_curve :: curve where
  "sample_curve =
     \<lparr>Params = sample_params,
      ScalarBaseMult =
        (\<lambda>d. case pt_mult (P sample_params)
                     (Some (Gx sample_params, Gy sample_params)) (nat \<bar>d\<bar>) of
                None \<Rightarrow> (0, 0)
              | Some pt \<Rightarrow> pt)\<rparr>"

definition byte_of_char :: "char \<Rightarrow> byte" where
  "byte_of_char c = of_nat (of_char c)"

definition char_of_byte :: "byte \<Rightarrow> char" where
  "char_of_byte b = char_of (unat b)"

fun frame_octets :: "bytes \<Rightarrow> bytes" where
  "frame_octets [] = [0]"
| "frame_octets (x # xs) = 1 # x # frame_octets xs"

fun unframe_octets :: "bytes \<Rightarrow> (bytes \<times> bytes) option" where
  "unframe_octets [] = None"
| "unframe_octets [t] = (if t = 0 then Some ([], []) else None)"
| "unframe_octets (t # x # rest) =
     (if t = 0 then Some ([], x # rest)
      else map_option (\<lambda>(xs, r). (x # xs, r)) (unframe_octets rest))"

fun frame_headers :: "(string \<times> string) list \<Rightarrow> bytes" where
  "frame_headers [] = [0]"
| "frame_headers ((k, v) # hs) =
     1 # frame_octets (map byte_of_char k) @ frame_octets (map byte_of_char v) @ frame_headers hs"

fun unframe_headers :: "nat \<Rightarrow> bytes \<Rightarrow> ((string \<times> string) list \<times> bytes) option" where
  "unframe_headers fuel [] = None"
| "unframe_headers 0 (t # rest) = (if t = 0 then Some ([], rest) else None)"
| "unframe_headers (Suc n) (t # rest) =
     (if t = 0 then Some ([], rest)
      else
        (case unframe_octets rest of
           None \<Rightarrow> None
         | Some (k, r1) \<Rightarrow>
             (case unframe_octets r1 of
                None \<Rightarrow> None
              | Some (v, r2) \<Rightarrow>
                  map_option (\<lambda>(hs, r). ((map char_of_byte k, map char_of_byte v) # hs, r))
                    (unframe_headers n r2))))"

definition sample_EncodeToMemory :: "pem_Block \<Rightarrow> bytes" where
  "sample_EncodeToMemory b =
     frame_octets (map byte_of_char (pem_Type b)) @ frame_headers (pem_Headers b)
     @ frame_octets (pem_Bytes b)"

definition sample_Decode :: "bytes \<Rightarrow> pem_Block option" where
  "sample_Decode raw =
     (case unframe_octets raw of
        None \<Rightarrow> None
      | Some (t, r1) \<Rightarrow>
          (case unframe_headers (length r1) r1 of
             None \<Rightarrow> None
           | Some (hs, r2) \<Rightarrow>
               (case unframe_octets r2 of
                  None \<Rightarrow> None
                | Some (bs, r3) \<Rightarrow>
                    if r3 = []
                    then Some \<lparr>pem_Type = map char_of_byte t, pem_Headers = hs, pem_Bytes = bs\<rparr>
                    else None)))"

definition sample_mask :: "bytes \<Rightarrow> byte" where
  "sample_mask pwd = foldr (+) pwd 0x5A"

definition sample_EncryptPEMBlock ::
    "bytes \<Rightarrow> string \<Rightarrow> bytes \<Rightarrow> bytes \<Rightarrow> PEMCipher \<Rightarrow> liberr + pem_Block" where
  "sample_EncryptPEMBlock rnd t raw pwd c =
     Inr \<lparr>pem_Type = t,
          pem_Headers = [(''Proc-Type'', ''4,ENCRYPTED''), (''DEK-Info'', ''AES-256-CBC'')],
          pem_Bytes = (0xA5 XOR sample_mask pwd) # map (\<lambda>x. x XOR sample_mask pwd) raw\<rparr>"

definition sample_DecryptPEMBlock :: "pem_Block \<Rightarrow> bytes \<Rightarrow> liberr + bytes" where
  "sample_DecryptPEMBlock b pwd =
     (case pem_Bytes b of
        [] \<Rightarrow> Inl ''x509: no data''
      | chk # body \<Rightarrow>
          if chk XOR sample_mask pwd = 0xA5
          then Inr (map (\<lambda>x. x XOR sample_mask pwd) body)
          else Inl ''x509: decryption password incorrect'')"

definition sample_IsEncryptedPEMBlock :: "pem_Block \<Rightarrow> bool" where
  "sample_IsEncryptedPEMBlock b \<longleftrightarrow> map_of (pem_Headers b) ''DEK-Info'' \<noteq> None"

definition sample_env :: collab where
  "sample_env =
     \<lparr>pem_EncodeToMemory = sample_EncodeToMemory,
      pem_Decode = sample_Decode,
      EncryptPEMBlock = sample_EncryptPEMBlock,
      DecryptPEMBlock = sample_DecryptPEMBlock,
      IsEncryptedPEMBlock = sample_IsEncryptedPEMBlock,
      ParsePKCS8PrivateKey = ParsePKCS8PrivateKey_spec sample_curve,
      MarshalPKIXPublicKey = MarshalPKIXPublicKey_spec,
      ParsePKIXPublicKey = ParsePKIXPublicKey_spec sample_curve\<rparr>"

text \<open>The key with scalar 1, whose point is the base point; a key whose scalar needs 33
  bytes; and the public half of the first.\<close>

definition sample_key :: private_key where
  "sample_key =
     \<lparr>Curve = sample_curve, X = Gx sample_params, Y = Gy sample_params, D = 1\<rparr>"

definition oversized_key :: private_key where
  "oversized_key =
     \<lparr>Curve = sample_curve, X = Gx sample_params, Y = Gy sample_params, D = 2 ^ 256\<rparr>"

definition sample_public_key :: public_key where
  "sample_public_key =
     \<lparr>Curve = sample_curve, X = Gx sample_params, Y = Gy sample_params\<rparr>"


definition p256_pkcs8_der :: bytes where
  "p256_pkcs8_der =
     [0x30, 0x1B, 0x02, 0x01, 0x00,
      0x30, 0x13, 0x06, 0x07, 0x2A, 0x86, 0x48, 0xCE, 0x3D, 0x02, 0x01,
      0x06, 0x08, 0x2A, 0x86, 0x48, 0xCE, 0x3D, 0x03, 0x01, 0x07,
      0x04, 0x01, 0x00]"

definition p256_pkix_der :: bytes where
  "p256_pkix_der =
     [0x30, 0x19,
      0x30, 0x13, 0x06, 0x07, 0x2A, 0x86, 0x48, 0xCE, 0x3D, 0x02, 0x01,
      0x06, 0x08, 0x2A, 0x86, 0x48, 0xCE, 0x3D, 0x03, 0x01, 0x07,
      0x03, 0x02, 0x00, 0x04]"

section \<open>Big-endian bytes and the DER writer and reader\<close>


lemma bytes_nat_snoc: "bytes_nat (xs @ [b]) = bytes_nat xs * 256 + unat b"
  by (simp add: bytes_nat_def)

lemma bytes_nat_Nil: "bytes_nat [] = 0"
  by (simp add: bytes_nat_def)

lemma bytes_nat_append: "bytes_nat (xs @ ys) = bytes_nat xs * 256 ^ length ys + bytes_nat ys"
proof (induction ys rule: rev_induct)
  case Nil
  show ?case by (simp add: bytes_nat_Nil)
next
  case (snoc y ys)
  have "bytes_nat (xs @ ys @ [y]) = bytes_nat ((xs @ ys) @ [y])" by simp
  also have "\<dots> = bytes_nat (xs @ ys) * 256 + unat y" by (rule bytes_nat_snoc)
  finally show ?case using snoc by (simp add: bytes_nat_snoc algebra_simps)
qed

lemma bytes_nat_zero_Cons: "bytes_nat (0 # bs) = bytes_nat bs"
  by (simp add: bytes_nat_def)

lemma bytes_nat_replicate_zero: "bytes_nat (replicate k 0) = 0"
  by (induction k) (simp_all add: bytes_nat_Nil bytes_nat_zero_Cons)

lemma bytes_nat_padded: "bytes_nat (replicate k 0 @ bs) = bytes_nat bs"
  by (simp add: bytes_nat_append bytes_nat_replicate_zero)

lemma bytes_nat_nat_bytes: "bytes_nat (nat_bytes n) = n"
proof (induction n rule: nat_bytes.induct)
  case (1 n)
  show ?case
  proof (cases "n = 0")
    case True
    then show ?thesis by (simp add: nat_bytes.simps bytes_nat_Nil)
  next
    case False
    have "unat (of_nat (n mod 256) :: byte) = n mod 256"
      by (simp add: unat_of_nat)
    with False 1 show ?thesis
      by (subst nat_bytes.simps) (simp add: bytes_nat_snoc)
  qed
qed

lemma length_nat_bytes_le: "length (nat_bytes n) \<le> w \<longleftrightarrow> n < 256 ^ w"
proof (induction n arbitrary: w rule: nat_bytes.induct)
  case (1 n)
  show ?case
  proof (cases "n = 0")
    case True
    then show ?thesis by (simp add: nat_bytes.simps)
  next
    case False
    note nz = this
    show ?thesis
    proof (cases w)
      case 0
      with nz show ?thesis by (subst nat_bytes.simps) simp
    next
      case (Suc v)
      have "length (nat_bytes n) = Suc (length (nat_bytes (n div 256)))"
        using nz by (subst nat_bytes.simps) simp
      moreover have "length (nat_bytes (n div 256)) \<le> v \<longleftrightarrow> n div 256 < 256 ^ v"
        using 1 [OF nz] .
      moreover have "n div 256 < 256 ^ v \<longleftrightarrow> n < 256 ^ Suc v"
        by (simp add: div_less_iff_less_mult mult.commute)
      ultimately show ?thesis using Suc by simp
    qed
  qed
qed

lemma nat_bitlen_bound: "n < 2 ^ nat_bitlen n"
proof (induction n rule: nat_bitlen.induct)
  case (1 n)
  show ?case
  proof (cases "n = 0")
    case True
    then show ?thesis by simp
  next
    case False
    then have "n div 2 < 2 ^ nat_bitlen (n div 2)" using 1 by simp
    then have "n < 2 * 2 ^ nat_bitlen (n div 2)" by linarith
    with False show ?thesis by (subst nat_bitlen.simps) simp
  qed
qed

lemma pow256_bits: "(2::nat) ^ b \<le> 256 ^ ((b + 7) div 8)"
proof -
  have "b \<le> 8 * ((b + 7) div 8)" by linarith
  then have "(2::nat) ^ b \<le> 2 ^ (8 * ((b + 7) div 8))"
    by (rule power_increasing) simp
  also have "\<dots> = 256 ^ ((b + 7) div 8)" by (simp add: power_mult)
  finally show ?thesis .
qed


lemma nat_bytes_fits_order: "n < m \<Longrightarrow> length (nat_bytes n) \<le> (nat_bitlen m + 7) div 8"
proof -
  assume "n < m"
  also have "m < 2 ^ nat_bitlen m" by (rule nat_bitlen_bound)
  also have "\<dots> \<le> 256 ^ ((nat_bitlen m + 7) div 8)" by (rule pow256_bits)
  finally show ?thesis by (simp add: length_nat_bytes_le)
qed

lemma length_nat_bytes_pos: "0 < n \<Longrightarrow> 0 < length (nat_bytes n)"
  by (subst nat_bytes.simps) simp

lemma der_read_length_der_length:
  assumes "n < 256 ^ 126"
  shows "der_read_length (der_length n @ rest) = Some (n, rest)"
proof (cases "n < 128")
  case True
  then have "unat (of_nat n :: byte) = n" by (simp add: unat_of_nat)
  moreover from True have "(of_nat n :: byte) < 0x80"
    by (simp add: word_less_nat_alt unat_of_nat)
  ultimately show ?thesis using True
    by (simp add: der_read_length_def der_length_def)
next
  case False
  define k where "k = length (nat_bytes n)"
  have k126: "k \<le> 126" unfolding k_def using assms by (simp add: length_nat_bytes_le)
  have kpos: "0 < k" unfolding k_def using False by (intro length_nat_bytes_pos) simp
  have "unat (of_nat (128 + k) :: byte) = (128 + k) mod 2 ^ LENGTH(8)"
    by (rule unat_of_nat)
  then have u: "unat (of_nat (128 + k) :: byte) = 128 + k"
    using k126 by simp
  then have ge: "\<not> (of_nat (128 + k) :: byte) < 0x80"
    by (simp add: word_less_nat_alt)
  show ?thesis using False u ge kpos
    by (simp add: der_read_length_def der_length_def k_def [symmetric] Let_def bytes_nat_nat_bytes)
qed

lemma der_read_der_tlv:
  assumes "length c < 256 ^ 126"
  shows "der_read (der_tlv t c @ rest) = Some (t, c, rest)"
  using assms by (simp add: der_read_def der_tlv_def der_read_length_der_length)

lemma der_expect_der_tlv:
  assumes "length c < 256 ^ 126"
  shows "der_expect t' (der_tlv t c @ rest) = (if t = t' then Some (c, rest) else None)"
  using assms by (simp add: der_expect_def der_read_der_tlv)



lemma length_nat_bytes_self: "length (nat_bytes n) \<le> n"
proof -
  have "n < 256 ^ n" by (induction n) auto
  then show ?thesis by (simp add: length_nat_bytes_le)
qed

lemma length_der_tlv_le: "length (der_tlv t c) \<le> 2 * length c + 2"
  using length_nat_bytes_self [of "length c"]
  by (simp add: der_tlv_def der_length_def)

lemma der_expect_Nil: "der_expect t [] = None"
  by (simp add: der_expect_def der_read_def)

lemma der_expect_der_tlv_only:
  assumes "length c < 256 ^ 126"
  shows "der_expect t' (der_tlv t c) = (if t = t' then Some (c, []) else None)"
  using der_expect_der_tlv [OF assms, of t' t "[]"] by simp

lemma int_content_0: "int_content 0 = [0]" by (simp add: int_content.simps)
lemma int_content_1: "int_content 1 = [1]" by (simp add: int_content.simps)
lemma int_of_content_0: "int_of_content [0] = Some 0" by (simp add: int_of_content_def)
lemma int_of_content_1: "int_of_content [1] = Some 1" by (simp add: int_of_content_def)

lemma base128_more_0: "base128_more 0 = []" by (simp add: base128_more.simps)

lemma base128_small: "n < 128 \<Longrightarrow> base128 n = [of_nat n]"
  by (simp add: base128_def base128_more_0)

lemma base128_two: "128 \<le> n \<Longrightarrow> n < 16384 \<Longrightarrow> base128 n = [of_nat (128 + n div 128), of_nat (n mod 128)]"
  by (simp add: base128_def base128_more.simps [of "n div 128"] base128_more_0 div_less_iff_less_mult)

lemma oid_content_sm2:
  "oid_content oidNamedCurveSm2 = Inr [0x2A, 0x81, 0x1C, 0xCF, 0x55, 0x01, 0x82, 0x2D]"
  by (simp add: oid_content_def oidNamedCurveSm2_def base128_small base128_two)

lemma oid_content_ecdsa:
  "oid_content oidPublicKeyECDSA = Inr [0x2A, 0x86, 0x48, 0xCE, 0x3D, 0x02, 0x01]"
  by (simp add: oid_content_def oidPublicKeyECDSA_def base128_small base128_two)



lemma oid_of_content_sm2:
  "oid_of_content [0x2A, 0x81, 0x1C, 0xCF, 0x55, 0x01, 0x82, 0x2D] = Some oidNamedCurveSm2"
  by (simp add: oid_of_content_def oidNamedCurveSm2_def)

lemma oid_of_content_ecdsa:
  "oid_of_content [0x2A, 0x86, 0x48, 0xCE, 0x3D, 0x02, 0x01] = Some oidPublicKeyECDSA"
  by (simp add: oid_of_content_def oidPublicKeyECDSA_def)

lemma marshal_oids_algs:
  "marshal_oids [oidPublicKeyECDSA, oidNamedCurveSm2] =
     Inr (der_tlv tagOID [0x2A, 0x86, 0x48, 0xCE, 0x3D, 0x02, 0x01] @
          der_tlv tagOID [0x2A, 0x81, 0x1C, 0xCF, 0x55, 0x01, 0x82, 0x2D])"
  by (simp add: oid_content_sm2 oid_content_ecdsa)



lemma small_fits: "n \<le> 2 ^ 64 \<Longrightarrow> n < (256::nat) ^ 126"
proof -
  assume le: "n \<le> 2 ^ 64"
  have "(2::nat) ^ 64 < 256 ^ 126" by simp
  with le show ?thesis by (rule order_le_less_trans)
qed

lemma expect_tlv:
  "length c \<le> 2 ^ 64 \<Longrightarrow> der_expect t' (der_tlv t c @ rest) = (if t = t' then Some (c, rest) else None)"
  by (rule der_expect_der_tlv) (rule small_fits)

lemma expect_tlv_only:
  "length c \<le> 2 ^ 64 \<Longrightarrow> der_expect t' (der_tlv t c) = (if t = t' then Some (c, []) else None)"
  by (rule der_expect_der_tlv_only) (rule small_fits)

lemma optional_tlv_only:
  "length c \<le> 2 ^ 64 \<Longrightarrow>
   der_optional t' (der_tlv t c) = (if t = t' then (Some c, []) else (None, der_tlv t c))"
  by (simp add: der_optional_def expect_tlv_only)

lemma optional_Nil: "der_optional t [] = (None, [])"
  by (simp add: der_optional_def der_expect_Nil)

lemma bitstring_of_content_zero:
  "pt \<noteq> [] \<Longrightarrow> bitstring_of_content (0 # pt) = Some \<lparr>Bytes = pt, BitLength = 8 * length pt\<rparr>"
  by (simp add: bitstring_of_content_def)

lemmas tag_defs = tagInteger_def tagBitString_def tagOctetString_def tagOID_def
  tagSequence_def tagExplicit0_def tagExplicit1_def

lemma tag_distinct:
  "tagExplicit1 \<noteq> tagExplicit0" "tagExplicit0 \<noteq> tagExplicit1"
  "tagOctetString \<noteq> tagSequence" "tagSequence \<noteq> tagOctetString"
  "tagInteger \<noteq> tagSequence" "tagSequence \<noteq> tagInteger"
  "tagBitString \<noteq> tagSequence" "tagSequence \<noteq> tagBitString"
  by (simp_all add: tag_defs)

lemma marshal_ec_plain:
  "pt \<noteq> [] \<Longrightarrow>
   asn1_Marshal_ecPrivateKey
      \<lparr>ec_Version = 1, ec_PrivateKey = padded, ec_NamedCurveOID = [],
       ec_PublicKey = \<lparr>Bytes = pt, BitLength = 0\<rparr>\<rparr>
   = Inr (der_tlv tagSequence
           (der_tlv tagInteger [1] @ der_tlv tagOctetString padded
            @ der_tlv tagExplicit1 (der_tlv tagBitString (0 # pt))))"
  by (simp add: asn1_Marshal_ecPrivateKey_def int_content_1 bitstring_content_def)

lemma marshal_ec_named:
  "pt \<noteq> [] \<Longrightarrow>
   asn1_Marshal_ecPrivateKey
      \<lparr>ec_Version = 1, ec_PrivateKey = padded, ec_NamedCurveOID = oidNamedCurveSm2,
       ec_PublicKey = \<lparr>Bytes = pt, BitLength = 0\<rparr>\<rparr>
   = Inr (der_tlv tagSequence
           (der_tlv tagInteger [1] @ der_tlv tagOctetString padded
            @ der_tlv tagExplicit0
                (der_tlv tagOID [0x2A, 0x81, 0x1C, 0xCF, 0x55, 0x01, 0x82, 0x2D])
            @ der_tlv tagExplicit1 (der_tlv tagBitString (0 # pt))))"
  by (simp add: asn1_Marshal_ecPrivateKey_def int_content_1 bitstring_content_def
      oid_content_sm2) (simp add: oidNamedCurveSm2_def)

lemma parse_ec_plain:
  assumes "length padded \<le> 2 ^ 32" and "length pt \<le> 2 ^ 32" and "pt \<noteq> []"
  shows "parse_ecPrivateKey
           (der_tlv tagSequence
             (der_tlv tagInteger [1] @ der_tlv tagOctetString padded
              @ der_tlv tagExplicit1 (der_tlv tagBitString (0 # pt))))
         = Some \<lparr>ec_Version = 1, ec_PrivateKey = padded, ec_NamedCurveOID = [],
                 ec_PublicKey = \<lparr>Bytes = pt, BitLength = 8 * length pt\<rparr>\<rparr>"
proof -
  have b1: "length (0 # pt) \<le> 2 ^ 64" using assms(2) by simp
  have "length (der_tlv tagBitString (0 # pt)) \<le> 2 * length (0 # pt) + 2"
    by (rule length_der_tlv_le)
  then have b2: "length (der_tlv tagBitString (0 # pt)) \<le> 2 ^ 34" using assms(2) by simp
  have "length (der_tlv tagExplicit1 (der_tlv tagBitString (0 # pt)))
          \<le> 2 * length (der_tlv tagBitString (0 # pt)) + 2"
    by (rule length_der_tlv_le)
  then have b3: "length (der_tlv tagExplicit1 (der_tlv tagBitString (0 # pt))) \<le> 2 ^ 36"
    using b2 by simp
  have "length (der_tlv tagOctetString padded) \<le> 2 * length padded + 2"
    by (rule length_der_tlv_le)
  then have b4: "length (der_tlv tagOctetString padded) \<le> 2 ^ 34" using assms(1) by simp
  have "length (der_tlv tagInteger [1]) \<le> 2 * length [1::byte] + 2"
    by (rule length_der_tlv_le)
  then have b5: "length (der_tlv tagInteger [1]) \<le> 4" by simp
  have b6: "length (der_tlv tagInteger [1] @ der_tlv tagOctetString padded
              @ der_tlv tagExplicit1 (der_tlv tagBitString (0 # pt))) \<le> 2 ^ 64"
    using b3 b4 b5 by simp
  have s1: "length [1::byte] \<le> 2 ^ 64" by simp
  have s2: "length padded \<le> 2 ^ 64" using assms(1) by simp
  have s3: "length (der_tlv tagBitString (0 # pt)) \<le> 2 ^ 64" using b2 by simp
  show ?thesis
    unfolding parse_ecPrivateKey_def
    by (simp add: expect_tlv_only [OF b6] expect_tlv [OF s1] expect_tlv [OF s2]
        optional_tlv_only [OF s3] expect_tlv_only [OF b1] optional_Nil
        int_of_content_1 bitstring_of_content_zero [OF assms(3)] tag_distinct)
qed


lemma length_ec_plain:
  assumes "length padded \<le> 2 ^ 32" and "length pt \<le> 2 ^ 32"
  shows "length (der_tlv tagSequence
             (der_tlv tagInteger [1] @ der_tlv tagOctetString padded
              @ der_tlv tagExplicit1 (der_tlv tagBitString (0 # pt)))) \<le> 2 ^ 40"
proof -
  have "length (der_tlv tagBitString (0 # pt)) \<le> 2 * length (0 # pt) + 2"
    by (rule length_der_tlv_le)
  then have b2: "length (der_tlv tagBitString (0 # pt)) \<le> 2 ^ 34" using assms(2) by simp
  have "length (der_tlv tagExplicit1 (der_tlv tagBitString (0 # pt)))
          \<le> 2 * length (der_tlv tagBitString (0 # pt)) + 2"
    by (rule length_der_tlv_le)
  then have b3: "length (der_tlv tagExplicit1 (der_tlv tagBitString (0 # pt))) \<le> 2 ^ 36"
    using b2 by simp
  have "length (der_tlv tagOctetString padded) \<le> 2 * length padded + 2"
    by (rule length_der_tlv_le)
  then have b4: "length (der_tlv tagOctetString padded) \<le> 2 ^ 34" using assms(1) by simp
  have "length (der_tlv tagInteger [1]) \<le> 2 * length [1::byte] + 2"
    by (rule length_der_tlv_le)
  then have b5: "length (der_tlv tagInteger [1]) \<le> 4" by simp
  have b6: "length (der_tlv tagInteger [1] @ der_tlv tagOctetString padded
              @ der_tlv tagExplicit1 (der_tlv tagBitString (0 # pt))) \<le> 2 ^ 38"
    using b3 b4 b5 by simp
  have "length (der_tlv tagSequence
             (der_tlv tagInteger [1] @ der_tlv tagOctetString padded
              @ der_tlv tagExplicit1 (der_tlv tagBitString (0 # pt))))
        \<le> 2 * length (der_tlv tagInteger [1] @ der_tlv tagOctetString padded
              @ der_tlv tagExplicit1 (der_tlv tagBitString (0 # pt))) + 2"
    by (rule length_der_tlv_le)
  then show ?thesis using b6 by simp
qed

lemma read_oids_Nil: "read_oids n [] = Some []"
  by (cases n) simp_all

lemma der_tlv_not_Nil: "der_tlv t c \<noteq> []"
  by (simp add: der_tlv_def)

lemma read_oids_two:
  assumes "oid_of_content c1 = Some o1" and "oid_of_content c2 = Some o2"
    and "length c1 \<le> 2 ^ 64" and "length c2 \<le> 2 ^ 64" and "2 \<le> n"
  shows "read_oids n (der_tlv tagOID c1 @ der_tlv tagOID c2) = Some [o1, o2]"
proof -
  from assms(5) obtain m where n: "n = Suc (Suc m)"
    by (metis Suc_le_D numeral_2_eq_2 Suc_le_mono)
  show ?thesis
    by (simp add: n der_tlv_not_Nil expect_tlv [OF assms(3)] expect_tlv_only [OF assms(4)]
        assms(1,2) read_oids_Nil)
qed

lemma parse_pkcs8_wrapped:
  assumes "length inner \<le> 2 ^ 40"
  shows "parse_pkcs8Info
           (der_tlv tagSequence
             (der_tlv tagInteger [0]
              @ der_tlv tagSequence
                  (der_tlv tagOID [0x2A, 0x86, 0x48, 0xCE, 0x3D, 0x02, 0x01] @
                   der_tlv tagOID [0x2A, 0x81, 0x1C, 0xCF, 0x55, 0x01, 0x82, 0x2D])
              @ der_tlv tagOctetString inner))
         = Some \<lparr>p8_Version = 0,
                 p8_PrivateKeyAlgorithm = [oidPublicKeyECDSA, oidNamedCurveSm2],
                 p8_PrivateKey = inner\<rparr>"
proof -
  let ?c1 = "[0x2A, 0x86, 0x48, 0xCE, 0x3D, 0x02, 0x01] :: bytes"
  let ?c2 = "[0x2A, 0x81, 0x1C, 0xCF, 0x55, 0x01, 0x82, 0x2D] :: bytes"
  let ?algs = "der_tlv tagOID ?c1 @ der_tlv tagOID ?c2"
  let ?body = "der_tlv tagInteger [0] @ der_tlv tagSequence ?algs @ der_tlv tagOctetString inner"
  have l1: "length ?c1 \<le> 2 ^ 64" and l2: "length ?c2 \<le> 2 ^ 64" by simp_all
  have la: "length (der_tlv tagOID ?c1) + length (der_tlv tagOID ?c2) = 19"
    by (simp add: der_tlv_def der_length_def)
  then have a: "length ?algs \<le> 2 ^ 64" by simp
  have ro: "read_oids 19 ?algs = Some [oidPublicKeyECDSA, oidNamedCurveSm2]"
    by (rule read_oids_two [OF oid_of_content_ecdsa oid_of_content_sm2 l1 l2]) simp
  have i: "length inner \<le> 2 ^ 64" using assms by simp
  have z: "length [0::byte] \<le> 2 ^ 64" by simp
  have "length (der_tlv tagOctetString inner) \<le> 2 * length inner + 2"
    by (rule length_der_tlv_le)
  moreover have "length (der_tlv tagSequence ?algs) \<le> 2 * length ?algs + 2"
    by (rule length_der_tlv_le)
  moreover have "length (der_tlv tagInteger [0]) \<le> 2 * length [0::byte] + 2"
    by (rule length_der_tlv_le)
  ultimately have b: "length ?body \<le> 2 ^ 64" using assms la by simp
  show ?thesis
    unfolding parse_pkcs8Info_def
    by (simp add: expect_tlv_only [OF b] expect_tlv [OF z] expect_tlv [OF a]
        expect_tlv_only [OF i] la ro int_of_content_0)
qed




section \<open>The sample instance keeps the contracts\<close>

lemma char_of_byte_of_char: "char_of_byte (byte_of_char c) = c"
proof -
  have "of_char c < (256::nat)" by simp
  then have "unat (of_nat (of_char c) :: byte) = of_char c"
    by (simp add: unat_of_nat)
  then show ?thesis by (simp add: char_of_byte_def byte_of_char_def)
qed

lemma map_char_of_byte: "map (char_of_byte \<circ> byte_of_char) s = s"
  by (induction s) (simp_all add: char_of_byte_of_char)

lemma unframe_frame_octets: "unframe_octets (frame_octets xs @ rest) = Some (xs, rest)"
proof (induction xs)
  case Nil
  show ?case by (cases rest) simp_all
next
  case (Cons x xs)
  then show ?case by simp
qed

lemma unframe_frame_headers:
  "length hs \<le> fuel \<Longrightarrow> unframe_headers fuel (frame_headers hs @ rest) = Some (hs, rest)"
proof (induction hs arbitrary: fuel)
  case Nil
  show ?case by (cases fuel) simp_all
next
  case (Cons h hs)
  obtain k v where h: "h = (k, v)" by (cases h)
  from Cons.prems obtain n where fuel: "fuel = Suc n" and n: "length hs \<le> n"
    by (cases fuel) auto
  show ?case
    using Cons.IH [OF n]
    by (simp add: h fuel unframe_frame_octets map_char_of_byte)
qed

lemma length_frame_headers: "length hs \<le> length (frame_headers hs)"
  by (induction hs) auto

lemma sample_Decode_Encode: "sample_Decode (sample_EncodeToMemory b) = Some b"
proof -
  have "length (pem_Headers b)
          \<le> length (frame_headers (pem_Headers b) @ frame_octets (pem_Bytes b))"
    using length_frame_headers [of "pem_Headers b"] by simp
  then have "unframe_headers
               (length (frame_headers (pem_Headers b) @ frame_octets (pem_Bytes b)))
               (frame_headers (pem_Headers b) @ frame_octets (pem_Bytes b))
             = Some (pem_Headers b, frame_octets (pem_Bytes b))"
    by (rule unframe_frame_headers)
  moreover have "unframe_octets (frame_octets (pem_Bytes b)) = Some (pem_Bytes b, [])"
    using unframe_frame_octets [of "pem_Bytes b" "[]"] by simp
  ultimately show ?thesis
    by (simp add: sample_Decode_def sample_EncodeToMemory_def unframe_frame_octets
        map_char_of_byte del: length_append)
qed

lemma frame_octets_not_Nil: "frame_octets xs \<noteq> []"
  by (cases xs) simp_all

lemma sample_Encode_not_Nil: "sample_EncodeToMemory b \<noteq> []"
  by (simp add: sample_EncodeToMemory_def frame_octets_not_Nil)

lemma sample_pem_faithful: "pem_faithful sample_env b"
  by (simp add: pem_faithful_def sample_env_def sample_Decode_Encode sample_Encode_not_Nil)

lemma xor_mask_twice: "map ((\<lambda>x. x XOR m) \<circ> (\<lambda>x. x XOR m)) (raw :: bytes) = raw"
  by (induction raw) (simp_all add: xor.assoc)

lemma sample_Decrypt_Encrypt:
  "sample_EncryptPEMBlock rnd t raw pwd c = Inr b \<Longrightarrow> sample_DecryptPEMBlock b pwd = Inr raw"
  by (auto simp: sample_EncryptPEMBlock_def sample_DecryptPEMBlock_def xor_mask_twice
      xor.assoc)

lemma sample_contract: "collab_contract sample_env"
  unfolding collab_contract_def
proof (intro conjI allI impI)
  fix t der
  show "pem_faithful sample_env (plain_block t der)" by (rule sample_pem_faithful)
  show "\<not> IsEncryptedPEMBlock sample_env (plain_block t der)"
    by (simp add: sample_env_def sample_IsEncryptedPEMBlock_def plain_block_def)
next
  fix rnd :: bytes and t raw pwd
  define b where "b = \<lparr>pem_Type = t,
          pem_Headers = [(''Proc-Type'', ''4,ENCRYPTED''), (''DEK-Info'', ''AES-256-CBC'')],
          pem_Bytes = (0xA5 XOR sample_mask pwd) # map (\<lambda>x. x XOR sample_mask pwd) raw\<rparr>"
  have e: "sample_EncryptPEMBlock rnd t raw pwd PEMCipherAES256 = Inr b"
    by (simp add: sample_EncryptPEMBlock_def b_def)
  have "EncryptPEMBlock sample_env rnd t raw pwd PEMCipherAES256 = Inr b"
    using e by (simp add: sample_env_def)
  moreover have "pem_Type b = t" by (simp add: b_def)
  moreover have "pem_faithful sample_env b" by (rule sample_pem_faithful)
  moreover have "IsEncryptedPEMBlock sample_env b"
    by (simp add: sample_env_def sample_IsEncryptedPEMBlock_def b_def)
  moreover have "DecryptPEMBlock sample_env b pwd = Inr raw"
    using sample_Decrypt_Encrypt [OF e] by (simp add: sample_env_def)
  ultimately show "\<exists>b. EncryptPEMBlock sample_env rnd t raw pwd PEMCipherAES256 = Inr b
               \<and> pem_Type b = t \<and> pem_faithful sample_env b
               \<and> IsEncryptedPEMBlock sample_env b
               \<and> DecryptPEMBlock sample_env b pwd = Inr raw"
    by blast
qed

lemma sample_x509: "x509_as_specified sample_env sample_curve"
  by (simp add: x509_as_specified_def sample_env_def)

lemma sample_order_bitlen: "big_BitLen (N sample_params) = 256"
  by (simp add: big_BitLen_def sample_params_def nat_bitlen.simps)

lemma sample_order_bytes: "order_bytes sample_curve = 32"
  by (simp add: order_bytes_def sample_curve_def sample_order_bitlen)

lemma sample_field_bytes: "field_bytes sample_curve = 32"
  by (simp add: field_bytes_def sample_curve_def sample_params_def)

lemma sample_base_point:
  "ScalarBaseMult sample_curve 1 = (Gx sample_params, Gy sample_params)"
proof -
  have "pt_mult p g (Suc 0) = g" for p g
    by (simp add: pt_mult.simps [of _ _ "Suc 0"] pt_mult.simps [of _ _ 0]
        pt_double_def pt_add_def)
  then show ?thesis by (simp add: sample_curve_def)
qed

lemma sample_key_valid: "valid_private_key sample_curve sample_key"
  by (simp add: valid_private_key_def valid_public_key_def sample_key_def sized_curve_def
      sample_order_bytes sample_field_bytes sample_base_point fits_def)
    (simp add: sample_params_def sample_curve_def)



section \<open>Padding and point encoding\<close>

lemma padded_copy_fixed:
  "length (big_Bytes x) \<le> w \<Longrightarrow> padded_copy w (big_Bytes x) = Some (fixed_width w x)"
  by (simp add: padded_copy_def fixed_width_def)

lemma length_fixed_width: "length (big_Bytes x) \<le> w \<Longrightarrow> length (fixed_width w x) = w"
  by (simp add: fixed_width_def)

lemma big_SetBytes_Bytes: "big_SetBytes (big_Bytes x) = \<bar>x\<bar>"
  by (simp add: big_SetBytes_def big_Bytes_def bytes_nat_nat_bytes)

lemma fixed_width_value: "big_SetBytes (fixed_width w x) = \<bar>x\<bar>"
  using big_SetBytes_Bytes [of x]
  by (simp add: fixed_width_def big_SetBytes_def bytes_nat_padded)

lemma length_big_Bytes_le: "length (big_Bytes x) \<le> w \<longleftrightarrow> \<bar>x\<bar> < 256 ^ w"
proof -
  have "length (big_Bytes x) \<le> w \<longleftrightarrow> nat \<bar>x\<bar> < 256 ^ w"
    by (simp add: big_Bytes_def length_nat_bytes_le)
  also have "\<dots> \<longleftrightarrow> \<bar>x\<bar> < int (256 ^ w)"
    by (simp only: nat_less_iff [OF abs_ge_zero])
  finally show ?thesis by simp
qed

lemma scalar_fits_order:
  assumes "1 \<le> d" and "d < n"
  shows "length (big_Bytes d) \<le> (big_BitLen n + 7) div 8"
proof -
  have "nat \<bar>d\<bar> < nat \<bar>n\<bar>" using assms by simp
  then show ?thesis
    unfolding big_Bytes_def big_BitLen_def by (rule nat_bytes_fits_order)
qed

lemma fits_length: "fits w x \<Longrightarrow> length (big_Bytes x) \<le> w"
  by (simp add: fits_def length_big_Bytes_le)

lemma valid_exportable: "valid_private_key sm2 k \<Longrightarrow> exportable k"
  by (auto simp: valid_private_key_def valid_public_key_def exportable_def fits_length
      order_bytes_def intro: scalar_fits_order)

lemma exportable_padded:
  "exportable k \<Longrightarrow>
   paddedPrivateKey k = Some (fixed_width (order_bytes (Curve k)) (D k))"
  by (simp add: exportable_def paddedPrivateKey_def padded_copy_fixed)

lemma point_marshal:
  "length (big_Bytes x) \<le> field_bytes c \<Longrightarrow> length (big_Bytes y) \<le> field_bytes c \<Longrightarrow>
   elliptic_Marshal c x y = Some (uncompressed_point (field_bytes c) x y)"
  by (simp add: elliptic_Marshal_def padded_copy_fixed uncompressed_point_def)

lemma exportable_point:
  "exportable k \<Longrightarrow>
   elliptic_Marshal (Curve k) (X k) (Y k)
     = Some (uncompressed_point (field_bytes (Curve k)) (X k) (Y k))"
  by (simp add: exportable_def point_marshal)

lemma uncompressed_point_not_Nil: "uncompressed_point w x y \<noteq> []"
  by (simp add: uncompressed_point_def)

lemma length_uncompressed_point:
  "length (big_Bytes x) \<le> w \<Longrightarrow> length (big_Bytes y) \<le> w \<Longrightarrow>
   length (uncompressed_point w x y) = 1 + 2 * w"
  by (simp add: uncompressed_point_def length_fixed_width)

lemma not_exportable_panics:
  assumes "\<not> exportable k"
  shows "paddedPrivateKey k = None \<or> elliptic_Marshal (Curve k) (X k) (Y k) = None"
  using assms
  by (auto simp: exportable_def paddedPrivateKey_def elliptic_Marshal_def padded_copy_def
      split: option.splits)

section \<open>The exporters write the layouts of the specification\<close>

lemma marshal_ec_plain_layout:
  "pt \<noteq> [] \<Longrightarrow>
   asn1_Marshal_ecPrivateKey
      \<lparr>ec_Version = 1, ec_PrivateKey = padded, ec_NamedCurveOID = [],
       ec_PublicKey = \<lparr>Bytes = pt, BitLength = 0\<rparr>\<rparr>
   = Inr (EncodedPrivateKey_layout padded None pt)"
  by (simp add: marshal_ec_plain EncodedPrivateKey_layout_def)

lemma marshal_ec_named_layout:
  "pt \<noteq> [] \<Longrightarrow>
   asn1_Marshal_ecPrivateKey
      \<lparr>ec_Version = 1, ec_PrivateKey = padded, ec_NamedCurveOID = oidNamedCurveSm2,
       ec_PublicKey = \<lparr>Bytes = pt, BitLength = 0\<rparr>\<rparr>
   = Inr (EncodedPrivateKey_layout padded (Some sm2_oid_octets) pt)"
  by (simp add: marshal_ec_named EncodedPrivateKey_layout_def sm2_oid_octets_def)

lemma marshal_pkcs8_layout:
  "asn1_Marshal_pkcs8Info
      \<lparr>p8_Version = 0, p8_PrivateKeyAlgorithm = [oidPublicKeyECDSA, oidNamedCurveSm2],
       p8_PrivateKey = inner\<rparr>
   = Inr (OuterKeyContainer_layout inner)"
  by (simp add: asn1_Marshal_pkcs8Info_def marshal_oids_algs int_content_0
      OuterKeyContainer_layout_def sm2_oid_octets_def ecPublicKey_oid_octets_def
      del: marshal_oids.simps)

lemma plain_export:
  assumes "exportable k"
  shows "PrivateKeyToPEM env rnd (Some k) []
         = Ok (pem_EncodeToMemory env
                 (plain_block ''PRIVATE KEY''
                    (OuterKeyContainer_layout
                       (EncodedPrivateKey_layout
                          (fixed_width (order_bytes (Curve k)) (D k)) None
                          (uncompressed_point (field_bytes (Curve k)) (X k) (Y k))))))"
  by (simp add: PrivateKeyToPEM_def exportable_padded [OF assms] exportable_point [OF assms]
      marshal_ec_plain_layout uncompressed_point_not_Nil marshal_pkcs8_layout
      plain_block_def)

lemma encrypted_export:
  assumes "exportable k"
  shows "PrivateKeyToEncryptedPEM env rnd (Some k) pwd
         = (case EncryptPEMBlock env rnd ''PRIVATE KEY''
                   (EncodedPrivateKey_layout
                      (fixed_width (order_bytes (Curve k)) (D k)) (Some sm2_oid_octets)
                      (uncompressed_point (field_bytes (Curve k)) (X k) (Y k)))
                   pwd PEMCipherAES256 of
              Inl e \<Rightarrow> Err (LibraryError e)
            | Inr block \<Rightarrow> Ok (pem_EncodeToMemory env block))"
  by (simp add: PrivateKeyToEncryptedPEM_def exportable_padded [OF assms]
      exportable_point [OF assms] marshal_ec_named_layout uncompressed_point_not_Nil)

lemma not_exportable_export:
  assumes "\<not> exportable k"
  shows "PrivateKeyToPEM env rnd (Some k) pwd = Panic"
    and "PrivateKeyToEncryptedPEM env rnd (Some k) pwd = Panic"
  using not_exportable_panics [OF assms]
  by (auto simp: PrivateKeyToPEM_def PrivateKeyToEncryptedPEM_def split: option.splits)


section \<open>Reading the layouts back\<close>

lemma parse_ec_plain_layout:
  assumes "length padded \<le> 2 ^ 32" and "length pt \<le> 2 ^ 32" and "pt \<noteq> []"
  shows "parse_ecPrivateKey (EncodedPrivateKey_layout padded None pt)
         = Some \<lparr>ec_Version = 1, ec_PrivateKey = padded, ec_NamedCurveOID = [],
                 ec_PublicKey = \<lparr>Bytes = pt, BitLength = 8 * length pt\<rparr>\<rparr>"
  using parse_ec_plain [OF assms] by (simp add: EncodedPrivateKey_layout_def)

lemma length_ec_plain_layout:
  assumes "length padded \<le> 2 ^ 32" and "length pt \<le> 2 ^ 32"
  shows "length (EncodedPrivateKey_layout padded None pt) \<le> 2 ^ 40"
  using length_ec_plain [OF assms] by (simp add: EncodedPrivateKey_layout_def)

lemma parse_pkcs8_layout:
  assumes "length inner \<le> 2 ^ 40"
  shows "parse_pkcs8Info (OuterKeyContainer_layout inner)
         = Some \<lparr>p8_Version = 0,
                 p8_PrivateKeyAlgorithm = [oidPublicKeyECDSA, oidNamedCurveSm2],
                 p8_PrivateKey = inner\<rparr>"
  using parse_pkcs8_wrapped [OF assms]
  by (simp add: OuterKeyContainer_layout_def sm2_oid_octets_def ecPublicKey_oid_octets_def)

lemma spec_parse_wrapped:
  assumes "length padded \<le> 2 ^ 32" and "length pt \<le> 2 ^ 32" and "pt \<noteq> []"
  shows "ParsePKCS8PrivateKey_spec sm2
           (OuterKeyContainer_layout (EncodedPrivateKey_layout padded None pt))
         = Inr (SM2PrivateKey
                 \<lparr>Curve = sm2,
                  X = fst (ScalarBaseMult sm2 (big_SetBytes padded)),
                  Y = snd (ScalarBaseMult sm2 (big_SetBytes padded)),
                  D = big_SetBytes padded\<rparr>)"
  by (simp add: ParsePKCS8PrivateKey_spec_def
      parse_pkcs8_layout [OF length_ec_plain_layout [OF assms(1,2)]]
      parse_ec_plain_layout [OF assms] Let_def)

lemma parse_pkcs8_standalone:
  assumes "length padded \<le> 2 ^ 32" and "length pt \<le> 2 ^ 32"
  shows "parse_pkcs8Info (EncodedPrivateKey_layout padded (Some sm2_oid_octets) pt) = None"
proof -
  let ?oid = "der_tlv tagExplicit0 (der_tlv tagOID sm2_oid_octets)"
  let ?pub = "der_tlv tagExplicit1 (der_tlv tagBitString (0 # pt))"
  let ?body = "der_tlv tagInteger [1] @ der_tlv tagOctetString padded @ ?oid @ ?pub"
  have "length (der_tlv tagBitString (0 # pt)) \<le> 2 * length (0 # pt) + 2"
    by (rule length_der_tlv_le)
  then have b2: "length (der_tlv tagBitString (0 # pt)) \<le> 2 ^ 34" using assms(2) by simp
  have "length ?pub \<le> 2 * length (der_tlv tagBitString (0 # pt)) + 2"
    by (rule length_der_tlv_le)
  then have b3: "length ?pub \<le> 2 ^ 36" using b2 by simp
  have "length (der_tlv tagOctetString padded) \<le> 2 * length padded + 2"
    by (rule length_der_tlv_le)
  then have b4: "length (der_tlv tagOctetString padded) \<le> 2 ^ 34" using assms(1) by simp
  have "length (der_tlv tagInteger [1]) \<le> 2 * length [1::byte] + 2"
    by (rule length_der_tlv_le)
  then have b5: "length (der_tlv tagInteger [1]) \<le> 4" by simp
  have "length (der_tlv tagOID sm2_oid_octets) \<le> 2 * length sm2_oid_octets + 2"
    by (rule length_der_tlv_le)
  then have b6: "length (der_tlv tagOID sm2_oid_octets) \<le> 18"
    by (simp add: sm2_oid_octets_def)
  have "length ?oid \<le> 2 * length (der_tlv tagOID sm2_oid_octets) + 2"
    by (rule length_der_tlv_le)
  then have b7: "length ?oid \<le> 38" using b6 by simp
  have b: "length ?body \<le> 2 ^ 64" using b3 b4 b5 b7 by simp
  have s1: "length [1::byte] \<le> 2 ^ 64" by simp
  have s2: "length padded \<le> 2 ^ 64" using assms(1) by simp
  show ?thesis
    unfolding parse_pkcs8Info_def EncodedPrivateKey_layout_def
    by (simp add: expect_tlv_only [OF b] expect_tlv [OF s1] expect_tlv [OF s2]
        int_of_content_1 tag_distinct)
qed

lemma spec_parse_standalone:
  assumes "length padded \<le> 2 ^ 32" and "length pt \<le> 2 ^ 32"
  shows "ParsePKCS8PrivateKey_spec sm2
           (EncodedPrivateKey_layout padded (Some sm2_oid_octets) pt)
         = Inl ''asn1: structure error''"
  by (simp add: ParsePKCS8PrivateKey_spec_def parse_pkcs8_standalone [OF assms])

lemma valid_sizes:
  assumes "valid_public_key sm2 q"
  shows "order_bytes (Curve q) \<le> 2 ^ 32" and "1 + 2 * field_bytes (Curve q) \<le> 2 ^ 32"
  using assms by (simp_all add: valid_public_key_def sized_curve_def)

lemma valid_scalar_value:
  assumes "valid_private_key sm2 k"
  shows "big_SetBytes (fixed_width w (D k)) = D k"
  using assms by (simp add: valid_private_key_def fixed_width_value)

lemma exportable_lengths:
  assumes "exportable k" and "valid_public_key sm2 k"
  shows "length (fixed_width (order_bytes (Curve k)) (D k)) \<le> 2 ^ 32"
    and "length (uncompressed_point (field_bytes (Curve k)) (X k) (Y k)) \<le> 2 ^ 32"
  using assms valid_sizes [OF assms(2)]
  by (simp_all add: exportable_def length_fixed_width length_uncompressed_point)

lemma plain_round_trip:
  assumes v: "valid_private_key sm2 k" and c: "collab_contract env"
    and x: "x509_as_specified env sm2"
  shows "\<exists>pem. PrivateKeyToPEM env rnd (Some k) [] = Ok pem
           \<and> PEMtoPrivateKey env pem [] = Inr k"
proof -
  let ?padded = "fixed_width (order_bytes (Curve k)) (D k)"
  let ?pt = "uncompressed_point (field_bytes (Curve k)) (X k) (Y k)"
  let ?der = "OuterKeyContainer_layout (EncodedPrivateKey_layout ?padded None ?pt)"
  let ?b = "plain_block ''PRIVATE KEY'' ?der"
  have e: "exportable k" using v by (rule valid_exportable)
  have ex: "PrivateKeyToPEM env rnd (Some k) [] = Ok (pem_EncodeToMemory env ?b)"
    by (rule plain_export [OF e])
  have vp: "valid_public_key sm2 k" and cu: "Curve k = sm2"
    and sb: "ScalarBaseMult sm2 (D k) = (X k, Y k)"
    using v by (simp_all add: valid_private_key_def valid_public_key_def)
  note lp = exportable_lengths(1) [OF e vp] and lq = exportable_lengths(2) [OF e vp]
  have sv: "big_SetBytes ?padded = D k" by (rule valid_scalar_value [OF v])
  have keq: "\<lparr>Curve = sm2, X = X k, Y = Y k, D = D k\<rparr> = k"
    using cu by (cases k) simp
  have "ParsePKCS8PrivateKey_spec sm2 ?der
          = Inr (SM2PrivateKey
                 \<lparr>Curve = sm2,
                  X = fst (ScalarBaseMult sm2 (big_SetBytes ?padded)),
                  Y = snd (ScalarBaseMult sm2 (big_SetBytes ?padded)),
                  D = big_SetBytes ?padded\<rparr>)"
    by (rule spec_parse_wrapped [OF lp lq]) (rule uncompressed_point_not_Nil)
  then have "ParsePKCS8PrivateKey_spec sm2 ?der = Inr (SM2PrivateKey k)"
    unfolding sv sb by (simp add: keq)
  then have p: "ParsePKCS8PrivateKey env ?der = Inr (SM2PrivateKey k)"
    using x by (simp add: x509_as_specified_def)
  have kt: "key_block_type ''PRIVATE KEY''" by (simp add: key_block_type_def)
  from c kt have f: "pem_faithful env ?b" and n: "\<not> IsEncryptedPEMBlock env ?b"
    unfolding collab_contract_def by blast+
  have "PEMtoPrivateKey env (pem_EncodeToMemory env ?b) [] = Inr k"
    using f n p by (simp add: PEMtoPrivateKey_def pem_faithful_def plain_block_def)
  with ex show ?thesis by blast
qed

lemma encrypted_export_contract:
  assumes e: "exportable k" and c: "collab_contract env" and pw: "pwd \<noteq> []"
  shows "\<exists>b. EncryptPEMBlock env rnd ''PRIVATE KEY''
               (EncodedPrivateKey_layout
                  (fixed_width (order_bytes (Curve k)) (D k)) (Some sm2_oid_octets)
                  (uncompressed_point (field_bytes (Curve k)) (X k) (Y k)))
               pwd PEMCipherAES256 = Inr b
           \<and> PrivateKeyToPEM env rnd (Some k) pwd = Ok (pem_EncodeToMemory env b)
           \<and> pem_Type b = ''PRIVATE KEY''
           \<and> pem_faithful env b
           \<and> IsEncryptedPEMBlock env b
           \<and> DecryptPEMBlock env b pwd
               = Inr (EncodedPrivateKey_layout
                        (fixed_width (order_bytes (Curve k)) (D k)) (Some sm2_oid_octets)
                        (uncompressed_point (field_bytes (Curve k)) (X k) (Y k)))"
proof -
  let ?raw = "EncodedPrivateKey_layout
                  (fixed_width (order_bytes (Curve k)) (D k)) (Some sm2_oid_octets)
                  (uncompressed_point (field_bytes (Curve k)) (X k) (Y k))"
  have kt: "key_block_type ''PRIVATE KEY''" by (simp add: key_block_type_def)
  from c kt pw obtain b
    where enc: "EncryptPEMBlock env rnd ''PRIVATE KEY'' ?raw pwd PEMCipherAES256 = Inr b"
      and t: "pem_Type b = ''PRIVATE KEY''"
      and f: "pem_faithful env b" and i: "IsEncryptedPEMBlock env b"
      and d: "DecryptPEMBlock env b pwd = Inr ?raw"
    unfolding collab_contract_def by blast
  have "PrivateKeyToPEM env rnd (Some k) pwd = Ok (pem_EncodeToMemory env b)"
    using pw enc by (simp add: PrivateKeyToPEM_def encrypted_export [OF e])
  with enc t f i d show ?thesis by blast
qed

lemma encrypted_round_trip_fails:
  assumes v: "valid_private_key sm2 k" and c: "collab_contract env"
    and x: "x509_as_specified env sm2" and pw: "pwd \<noteq> []"
  shows "\<exists>pem. PrivateKeyToPEM env rnd (Some k) pwd = Ok pem
           \<and> PEMtoPrivateKey env pem pwd = Inl (LibraryError ''asn1: structure error'')"
proof -
  let ?raw = "EncodedPrivateKey_layout
                  (fixed_width (order_bytes (Curve k)) (D k)) (Some sm2_oid_octets)
                  (uncompressed_point (field_bytes (Curve k)) (X k) (Y k))"
  have e: "exportable k" using v by (rule valid_exportable)
  have vp: "valid_public_key sm2 k"
    using v by (simp add: valid_private_key_def)
  note lp = exportable_lengths(1) [OF e vp] and lq = exportable_lengths(2) [OF e vp]
  from encrypted_export_contract [OF e c pw, of rnd] obtain b
    where out: "PrivateKeyToPEM env rnd (Some k) pwd = Ok (pem_EncodeToMemory env b)"
      and f: "pem_faithful env b" and i: "IsEncryptedPEMBlock env b"
      and d: "DecryptPEMBlock env b pwd = Inr ?raw"
    by blast
  have "ParsePKCS8PrivateKey env ?raw = Inl ''asn1: structure error''"
    using x spec_parse_standalone [OF lp lq, of sm2] by (simp add: x509_as_specified_def)
  then have "PEMtoPrivateKey env (pem_EncodeToMemory env b) pwd
               = Inl (LibraryError ''asn1: structure error'')"
    using f i d pw by (simp add: PEMtoPrivateKey_def pem_faithful_def)
  with out show ?thesis by blast
qed


section \<open>The public-key-info structure\<close>

lemma bitstring_content_whole:
  "bitstring_content \<lparr>Bytes = pt, BitLength = 8 * length pt\<rparr> = 0 # pt"
  by (simp add: bitstring_content_def)

lemma public_point:
  assumes "valid_public_key sm2 q"
  shows "elliptic_Marshal (Curve q) (X q) (Y q)
           = Some (uncompressed_point (field_bytes sm2) (X q) (Y q))"
    and "length (fixed_width (field_bytes sm2) (X q)) = field_bytes sm2"
    and "length (fixed_width (field_bytes sm2) (Y q)) = field_bytes sm2"
    and "big_SetBytes (fixed_width (field_bytes sm2) (X q)) = X q"
    and "big_SetBytes (fixed_width (field_bytes sm2) (Y q)) = Y q"
  using assms
  by (simp_all add: valid_public_key_def point_marshal fits_length length_fixed_width
      fixed_width_value fits_def)

lemma parse_point_marshalled:
  "length xs = field_bytes c \<Longrightarrow> length ys = field_bytes c \<Longrightarrow>
   parse_point c (4 # xs @ ys) = Some (big_SetBytes xs, big_SetBytes ys)"
  by (simp add: parse_point_def)

lemma parse_publicKeyInfo_marshalled:
  assumes "length pt \<le> 2 ^ 32" and "pt \<noteq> []"
  shows "parse_publicKeyInfo
           (der_tlv tagSequence
             (der_tlv tagSequence
                (der_tlv tagOID [0x2A, 0x86, 0x48, 0xCE, 0x3D, 0x02, 0x01] @
                 der_tlv tagOID [0x2A, 0x81, 0x1C, 0xCF, 0x55, 0x01, 0x82, 0x2D])
              @ der_tlv tagBitString (0 # pt)))
         = Some ([oidPublicKeyECDSA, oidNamedCurveSm2],
                 \<lparr>Bytes = pt, BitLength = 8 * length pt\<rparr>)"
proof -
  let ?c1 = "[0x2A, 0x86, 0x48, 0xCE, 0x3D, 0x02, 0x01] :: bytes"
  let ?c2 = "[0x2A, 0x81, 0x1C, 0xCF, 0x55, 0x01, 0x82, 0x2D] :: bytes"
  let ?algs = "der_tlv tagOID ?c1 @ der_tlv tagOID ?c2"
  let ?body = "der_tlv tagSequence ?algs @ der_tlv tagBitString (0 # pt)"
  have l1: "length ?c1 \<le> 2 ^ 64" and l2: "length ?c2 \<le> 2 ^ 64" by simp_all
  have la: "length (der_tlv tagOID ?c1) + length (der_tlv tagOID ?c2) = 19"
    by (simp add: der_tlv_def der_length_def)
  then have a: "length ?algs \<le> 2 ^ 64" by simp
  have ro: "read_oids 19 ?algs = Some [oidPublicKeyECDSA, oidNamedCurveSm2]"
    by (rule read_oids_two [OF oid_of_content_ecdsa oid_of_content_sm2 l1 l2]) simp
  have p: "length (0 # pt) \<le> 2 ^ 64" using assms(1) by simp
  have "length (der_tlv tagBitString (0 # pt)) \<le> 2 * length (0 # pt) + 2"
    by (rule length_der_tlv_le)
  moreover have "length (der_tlv tagSequence ?algs) \<le> 2 * length ?algs + 2"
    by (rule length_der_tlv_le)
  ultimately have b: "length ?body \<le> 2 ^ 64" using assms(1) la by simp
  show ?thesis
    unfolding parse_publicKeyInfo_def
    by (simp add: expect_tlv_only [OF b] expect_tlv [OF a] expect_tlv_only [OF p] la ro
        bitstring_of_content_zero [OF assms(2)])
qed

lemma pkix_round_trip:
  assumes "valid_public_key sm2 (q :: public_key)"
  shows "\<exists>der. MarshalPKIXPublicKey_spec q = Inr der
           \<and> ParsePKIXPublicKey_spec sm2 der = Inr (SM2PublicKey q)"
proof -
  let ?xs = "fixed_width (field_bytes sm2) (X q)"
  let ?ys = "fixed_width (field_bytes sm2) (Y q)"
  let ?pt = "4 # ?xs @ ?ys"
  let ?der = "der_tlv tagSequence
             (der_tlv tagSequence
                (der_tlv tagOID [0x2A, 0x86, 0x48, 0xCE, 0x3D, 0x02, 0x01] @
                 der_tlv tagOID [0x2A, 0x81, 0x1C, 0xCF, 0x55, 0x01, 0x82, 0x2D])
              @ der_tlv tagBitString (0 # ?pt))"
  note pp = public_point [OF assms]
  have pt: "elliptic_Marshal (Curve q) (X q) (Y q) = Some ?pt"
    using pp(1) by (simp add: uncompressed_point_def)
  from assms have c: "Curve q = sm2" by (simp add: valid_public_key_def)
  have lq: "length ?pt \<le> 2 ^ 32" using pp(2,3) valid_sizes(2) [OF assms] c by simp
  have m: "MarshalPKIXPublicKey_spec q = Inr ?der"
    unfolding MarshalPKIXPublicKey_spec_def pt
    by (simp add: marshal_oids_algs bitstring_content_def del: marshal_oids.simps)
  have keq: "\<lparr>Curve = sm2, X = X q, Y = Y q\<rparr> = q"
    using c by (cases q) simp
  have "parse_publicKeyInfo ?der
          = Some ([oidPublicKeyECDSA, oidNamedCurveSm2],
                  \<lparr>Bytes = ?pt, BitLength = 8 * length ?pt\<rparr>)"
    by (rule parse_publicKeyInfo_marshalled [OF lq]) simp
  then have "ParsePKIXPublicKey_spec sm2 ?der = Inr (SM2PublicKey q)"
    by (simp add: ParsePKIXPublicKey_spec_def parse_point_marshalled [OF pp(2,3)]
        pp(4,5) keq)
  with m show ?thesis by blast
qed

lemma public_round_trips:
  assumes v: "valid_public_key sm2 (q :: public_key)" and c: "collab_contract env"
    and x: "x509_as_specified env sm2"
  shows "(\<exists>pem. PublicKeyToPEM env rnd (Some q) [] = Ok pem
            \<and> PEMtoPublicKey env pem [] = Inr q)
         \<and> (pwd \<noteq> [] \<longrightarrow>
              (\<exists>pem. PublicKeyToPEM env rnd (Some q) pwd = Ok pem
                 \<and> PEMtoPublicKey env pem pwd = Inr q))"
proof -
  from pkix_round_trip [OF v] obtain der
    where m: "MarshalPKIXPublicKey_spec q = Inr der"
      and p: "ParsePKIXPublicKey_spec sm2 der = Inr (SM2PublicKey q)"
    by blast
  from x have xm: "MarshalPKIXPublicKey env q = Inr der"
    and xp: "ParsePKIXPublicKey env der = Inr (SM2PublicKey q)"
    using m p by (simp_all add: x509_as_specified_def)
  have kt: "key_block_type ''PUBLIC KEY''" by (simp add: key_block_type_def)
  let ?b = "plain_block ''PUBLIC KEY'' der"
  from c kt have f: "pem_faithful env ?b" and n: "\<not> IsEncryptedPEMBlock env ?b"
    unfolding collab_contract_def by blast+
  have ex: "PublicKeyToPEM env rnd (Some q) [] = Ok (pem_EncodeToMemory env ?b)"
    by (simp add: PublicKeyToPEM_def xm plain_block_def)
  have im: "PEMtoPublicKey env (pem_EncodeToMemory env ?b) [] = Inr q"
    using f n xp by (simp add: PEMtoPublicKey_def pem_faithful_def plain_block_def)
  have enc: "\<exists>pem. PublicKeyToPEM env rnd (Some q) pwd = Ok pem
                 \<and> PEMtoPublicKey env pem pwd = Inr q" if pw: "pwd \<noteq> []"
  proof -
    from c kt pw obtain b
      where e: "EncryptPEMBlock env rnd ''PUBLIC KEY'' der pwd PEMCipherAES256 = Inr b"
        and fb: "pem_faithful env b" and ib: "IsEncryptedPEMBlock env b"
        and d: "DecryptPEMBlock env b pwd = Inr der"
      unfolding collab_contract_def by blast
    have "PublicKeyToPEM env rnd (Some q) pwd = Ok (pem_EncodeToMemory env b)"
      using pw by (simp add: PublicKeyToPEM_def PublicKeyToEncryptedPEM_def xm e)
    moreover have "PEMtoPublicKey env (pem_EncodeToMemory env b) pwd = Inr q"
      using fb ib d pw xp by (simp add: PEMtoPublicKey_def pem_faithful_def)
    ultimately show ?thesis by blast
  qed
  from ex im enc show ?thesis by blast
qed

lemma sample_public_key_valid: "valid_public_key sample_curve sample_public_key"
  using sample_key_valid
  by (simp add: valid_private_key_def valid_public_key_def sample_key_def
      sample_public_key_def)


section \<open>Facts about the sample keys\<close>

lemma sample_key_exportable: "exportable sample_key"
  using sample_key_valid by (rule valid_exportable)

lemma sample_scalar_range:
  "1 \<le> D sample_key \<and> D sample_key < N (Params (Curve sample_key))"
  using sample_key_valid by (simp add: valid_private_key_def valid_public_key_def)

lemma sample_key_fields:
  "D sample_key = 1" "Curve sample_key = sample_curve"
  by (simp_all add: sample_key_def)

lemma oversized_scalar:
  "order_bytes (Curve oversized_key) < length (big_Bytes (D oversized_key))"
proof -
  have "\<not> length (big_Bytes (2 ^ 256)) \<le> 32"
    unfolding length_big_Bytes_le by simp
  then show ?thesis by (simp add: oversized_key_def sample_order_bytes)
qed

lemma oversized_not_exportable: "\<not> exportable oversized_key"
  using oversized_scalar by (simp add: exportable_def)

section \<open>Private keys: the plain round trip\<close>

text \<open>
  C1. For every valid SM2 private key, exporting with the empty password and importing
  the result with the empty password succeeds and returns the key itself: the same
  \<open>D\<close>, \<open>X\<close>, \<open>Y\<close> and curve.
\<close>

theorem private_plain_round_trip:
  assumes "valid_private_key sm2 k" and "collab_contract env"
    and "x509_as_specified env sm2"
  shows "\<exists>pem. PrivateKeyToPEM env rnd (Some k) [] = Ok pem
           \<and> PEMtoPrivateKey env pem [] = Inr k"
  using assms by (rule plain_round_trip)

theorem private_plain_round_trip_witness:
  "valid_private_key sample_curve sample_key
   \<and> collab_contract sample_env
   \<and> x509_as_specified sample_env sample_curve
   \<and> (\<exists>pem. PrivateKeyToPEM sample_env [] (Some sample_key) [] = Ok pem
         \<and> PEMtoPrivateKey sample_env pem [] = Inr sample_key)"
  using private_plain_round_trip [OF sample_key_valid sample_contract sample_x509, of "[]"]
    sample_key_valid sample_contract sample_x509
  by blast

section \<open>Private keys: the encrypted round trip\<close>

text \<open>
  C2. The claim is that exporting a valid key under a non-empty password and importing
  the result under the same password returns the key. The exporter encrypts the
  standalone EncodedPrivateKey, and the importer hands the decrypted payload to the
  PKCS8 parser, which expects an OuterKeyContainer: the second element it meets is the
  OCTET STRING of the scalar where a SEQUENCE of algorithm identifiers has to be. The
  import therefore fails, for every valid key and every non-empty password.
\<close>

theorem private_encrypted_round_trip_fails:
  assumes "valid_private_key sm2 k" and "collab_contract env"
    and "x509_as_specified env sm2" and "pwd \<noteq> []"
  shows "\<exists>pem. PrivateKeyToPEM env rnd (Some k) pwd = Ok pem
           \<and> PEMtoPrivateKey env pem pwd = Inl (LibraryError ''asn1: structure error'')"
  using assms by (rule encrypted_round_trip_fails)

theorem private_encrypted_round_trip_fails_witness:
  "valid_private_key sample_curve sample_key
   \<and> collab_contract sample_env
   \<and> x509_as_specified sample_env sample_curve
   \<and> [7] \<noteq> ([] :: bytes)
   \<and> (\<exists>pem. PrivateKeyToPEM sample_env [] (Some sample_key) [7] = Ok pem
         \<and> PEMtoPrivateKey sample_env pem [7]
             = Inl (LibraryError ''asn1: structure error''))"
proof -
  have p: "[7] \<noteq> ([] :: bytes)" by simp
  show ?thesis
    using private_encrypted_round_trip_fails
      [OF sample_key_valid sample_contract sample_x509 p, of "[]"]
      sample_key_valid sample_contract sample_x509 p
    by blast
qed

section \<open>The fixed-width scalar\<close>

text \<open>
  C3. In both private-key export paths the scalar \<open>D\<close> of a valid key is serialized as
  its big-endian bytes left-padded with zeros to exactly \<open>ceil(bitlen(N)/8)\<close> bytes:
  the padded buffer has that length, it is the OCTET STRING of the EncodedPrivateKey that
  the plain path wraps and that the encrypted path hands to the cipher, and read back
  big-endian it is \<open>D\<close>. For \<open>D = 1\<close> on a curve with a 256-bit order the field is 31
  zero bytes followed by 1, and importing the plain export returns a key with the same
  \<open>D\<close>.
\<close>

theorem scalar_padding:
  assumes "valid_private_key sm2 k"
  shows "\<exists>padded.
      paddedPrivateKey k = Some padded
      \<and> length padded = (big_BitLen (N (Params sm2)) + 7) div 8
      \<and> padded = replicate (length padded - length (big_Bytes (D k))) 0 @ big_Bytes (D k)
      \<and> big_SetBytes padded = D k
      \<and> (D k = 1 \<and> big_BitLen (N (Params sm2)) = 256 \<longrightarrow> padded = replicate 31 0 @ [1])
      \<and> PrivateKeyToPEM env rnd (Some k) []
          = Ok (pem_EncodeToMemory env
                  (plain_block ''PRIVATE KEY''
                     (OuterKeyContainer_layout
                        (EncodedPrivateKey_layout padded None
                           (uncompressed_point (field_bytes sm2) (X k) (Y k))))))
      \<and> PrivateKeyToEncryptedPEM env rnd (Some k) pwd
          = (case EncryptPEMBlock env rnd ''PRIVATE KEY''
                    (EncodedPrivateKey_layout padded (Some sm2_oid_octets)
                       (uncompressed_point (field_bytes sm2) (X k) (Y k)))
                    pwd PEMCipherAES256 of
               Inl e \<Rightarrow> Err (LibraryError e)
             | Inr block \<Rightarrow> Ok (pem_EncodeToMemory env block))
      \<and> (collab_contract env \<and> x509_as_specified env sm2 \<longrightarrow>
           (\<exists>pem k'. PrivateKeyToPEM env rnd (Some k) [] = Ok pem
              \<and> PEMtoPrivateKey env pem [] = Inr k' \<and> D k' = D k))"
proof -
  let ?w = "order_bytes sm2"
  let ?padded = "fixed_width ?w (D k)"
  have e: "exportable k" using assms by (rule valid_exportable)
  have cu: "Curve k = sm2" and d1: "1 \<le> D k"
    using assms by (simp_all add: valid_private_key_def valid_public_key_def)
  have le: "length (big_Bytes (D k)) \<le> ?w"
    using e cu by (simp add: exportable_def)
  have a: "paddedPrivateKey k = Some ?padded"
    using exportable_padded [OF e] cu by simp
  have b: "length ?padded = (big_BitLen (N (Params sm2)) + 7) div 8"
    using length_fixed_width [OF le] by (simp add: order_bytes_def)
  have c: "?padded = replicate (length ?padded - length (big_Bytes (D k))) 0 @ big_Bytes (D k)"
    using length_fixed_width [OF le] by (simp add: fixed_width_def)
  have d: "big_SetBytes ?padded = D k" by (rule valid_scalar_value [OF assms])
  have f: "?padded = replicate 31 0 @ [1]"
    if "D k = 1 \<and> big_BitLen (N (Params sm2)) = 256"
  proof -
    have "big_Bytes 1 = [1]" by (simp add: big_Bytes_def nat_bytes.simps)
    with that show ?thesis by (simp add: fixed_width_def order_bytes_def)
  qed
  have g: "PrivateKeyToPEM env rnd (Some k) []
          = Ok (pem_EncodeToMemory env
                  (plain_block ''PRIVATE KEY''
                     (OuterKeyContainer_layout
                        (EncodedPrivateKey_layout ?padded None
                           (uncompressed_point (field_bytes sm2) (X k) (Y k))))))"
    using plain_export [OF e, of env rnd] cu by simp
  have h: "PrivateKeyToEncryptedPEM env rnd (Some k) pwd
          = (case EncryptPEMBlock env rnd ''PRIVATE KEY''
                    (EncodedPrivateKey_layout ?padded (Some sm2_oid_octets)
                       (uncompressed_point (field_bytes sm2) (X k) (Y k)))
                    pwd PEMCipherAES256 of
               Inl e \<Rightarrow> Err (LibraryError e)
             | Inr block \<Rightarrow> Ok (pem_EncodeToMemory env block))"
    using encrypted_export [OF e, of env rnd pwd] cu by simp
  have i: "\<exists>pem k'. PrivateKeyToPEM env rnd (Some k) [] = Ok pem
              \<and> PEMtoPrivateKey env pem [] = Inr k' \<and> D k' = D k"
    if "collab_contract env \<and> x509_as_specified env sm2"
    using plain_round_trip [OF assms, of env rnd] that by blast
  from a b c d f g h i show ?thesis by blast
qed

theorem scalar_padding_witness:
  "valid_private_key sample_curve sample_key
   \<and> D sample_key = 1 \<and> big_BitLen (N (Params sample_curve)) = 256
   \<and> collab_contract sample_env \<and> x509_as_specified sample_env sample_curve
   \<and> paddedPrivateKey sample_key = Some (replicate 31 0 @ [1])
   \<and> (\<exists>pem k'. PrivateKeyToPEM sample_env [] (Some sample_key) [] = Ok pem
         \<and> PEMtoPrivateKey sample_env pem [] = Inr k' \<and> D k' = 1)"
proof -
  have bl: "big_BitLen (N (Params sample_curve)) = 256"
    by (simp add: sample_curve_def sample_order_bitlen)
  show ?thesis
    using scalar_padding [OF sample_key_valid, of sample_env "[]" "[]"]
      sample_key_valid sample_key_fields(1) bl sample_contract sample_x509
    by auto
qed


lemma valid_point_parts:
  assumes "valid_private_key sm2 k"
  shows "length (fixed_width (field_bytes sm2) (X k)) = field_bytes sm2"
    and "length (fixed_width (field_bytes sm2) (Y k)) = field_bytes sm2"
    and "big_SetBytes (fixed_width (field_bytes sm2) (X k)) = X k"
    and "big_SetBytes (fixed_width (field_bytes sm2) (Y k)) = Y k"
    and "elliptic_Marshal (Curve k) (X k) (Y k)
           = Some (4 # fixed_width (field_bytes sm2) (X k) @ fixed_width (field_bytes sm2) (Y k))"
proof -
  have vp: "valid_public_key sm2 k" using assms by (simp add: valid_private_key_def)
  note pp = public_point [OF vp]
  show "length (fixed_width (field_bytes sm2) (X k)) = field_bytes sm2" by (rule pp(2))
  show "length (fixed_width (field_bytes sm2) (Y k)) = field_bytes sm2" by (rule pp(3))
  show "big_SetBytes (fixed_width (field_bytes sm2) (X k)) = X k" by (rule pp(4))
  show "big_SetBytes (fixed_width (field_bytes sm2) (Y k)) = Y k" by (rule pp(5))
  show "elliptic_Marshal (Curve k) (X k) (Y k)
           = Some (4 # fixed_width (field_bytes sm2) (X k) @ fixed_width (field_bytes sm2) (Y k))"
    using pp(1) by (simp add: uncompressed_point_def)
qed

section \<open>The shape of the private-key exports\<close>

text \<open>
  C4. For every valid key and the empty password the output is the PEM block of type
  \<open>PRIVATE KEY\<close>, without headers, whose bytes are the marshalled \<^verbatim>\<open>pkcs8Info\<close> with
  version 0, the algorithm identifiers \<open>1.2.840.10045.2.1\<close> and \<open>1.2.156.10197.1.301\<close>
  and, as its key, the marshalled \<^verbatim>\<open>ecPrivateKey\<close> with version 1, no named curve, and
  the public key bit string \<open>0x04 || X || Y\<close> with both coordinates at the field width.
  The two marshalled structures are the OuterKeyContainer and the EncodedPrivateKey of
  the specification.
\<close>

theorem plain_private_export_shape:
  assumes "valid_private_key sm2 k"
  shows "\<exists>padded xs ys inner outer.
      paddedPrivateKey k = Some padded
      \<and> length xs = field_bytes sm2 \<and> length ys = field_bytes sm2
      \<and> big_SetBytes xs = X k \<and> big_SetBytes ys = Y k
      \<and> elliptic_Marshal (Curve k) (X k) (Y k) = Some (4 # xs @ ys)
      \<and> asn1_Marshal_ecPrivateKey
           \<lparr>ec_Version = 1, ec_PrivateKey = padded, ec_NamedCurveOID = [],
            ec_PublicKey = \<lparr>Bytes = 4 # xs @ ys, BitLength = 0\<rparr>\<rparr> = Inr inner
      \<and> inner = EncodedPrivateKey_layout padded None (4 # xs @ ys)
      \<and> asn1_Marshal_pkcs8Info
           \<lparr>p8_Version = 0,
            p8_PrivateKeyAlgorithm = [[1, 2, 840, 10045, 2, 1], [1, 2, 156, 10197, 1, 301]],
            p8_PrivateKey = inner\<rparr> = Inr outer
      \<and> outer = OuterKeyContainer_layout inner
      \<and> PrivateKeyToPEM env rnd (Some k) []
          = Ok (pem_EncodeToMemory env
                  \<lparr>pem_Type = ''PRIVATE KEY'', pem_Headers = [], pem_Bytes = outer\<rparr>)"
proof -
  let ?padded = "fixed_width (order_bytes sm2) (D k)"
  let ?xs = "fixed_width (field_bytes sm2) (X k)"
  let ?ys = "fixed_width (field_bytes sm2) (Y k)"
  let ?inner = "EncodedPrivateKey_layout ?padded None (4 # ?xs @ ?ys)"
  let ?outer = "OuterKeyContainer_layout ?inner"
  have e: "exportable k" using assms by (rule valid_exportable)
  have cu: "Curve k = sm2"
    using assms by (simp add: valid_private_key_def valid_public_key_def)
  note vp = valid_point_parts [OF assms]
  have a: "paddedPrivateKey k = Some ?padded" using exportable_padded [OF e] cu by simp
  have m1: "asn1_Marshal_ecPrivateKey
           \<lparr>ec_Version = 1, ec_PrivateKey = ?padded, ec_NamedCurveOID = [],
            ec_PublicKey = \<lparr>Bytes = 4 # ?xs @ ?ys, BitLength = 0\<rparr>\<rparr> = Inr ?inner"
    by (rule marshal_ec_plain_layout) simp
  have m2: "asn1_Marshal_pkcs8Info
           \<lparr>p8_Version = 0,
            p8_PrivateKeyAlgorithm = [[1, 2, 840, 10045, 2, 1], [1, 2, 156, 10197, 1, 301]],
            p8_PrivateKey = ?inner\<rparr> = Inr ?outer"
    using marshal_pkcs8_layout [of ?inner]
    by (simp add: oidPublicKeyECDSA_def oidNamedCurveSm2_def del: marshal_oids.simps)
  have ex: "PrivateKeyToPEM env rnd (Some k) []
          = Ok (pem_EncodeToMemory env
                  \<lparr>pem_Type = ''PRIVATE KEY'', pem_Headers = [], pem_Bytes = ?outer\<rparr>)"
    using plain_export [OF e, of env rnd] cu
    by (simp add: plain_block_def uncompressed_point_def)
  from a vp m1 m2 ex show ?thesis by blast
qed

theorem plain_private_export_shape_witness:
  "valid_private_key sample_curve sample_key
   \<and> (\<exists>padded xs ys inner outer.
      paddedPrivateKey sample_key = Some padded
      \<and> length xs = field_bytes sample_curve \<and> length ys = field_bytes sample_curve
      \<and> big_SetBytes xs = X sample_key \<and> big_SetBytes ys = Y sample_key
      \<and> elliptic_Marshal (Curve sample_key) (X sample_key) (Y sample_key)
          = Some (4 # xs @ ys)
      \<and> asn1_Marshal_ecPrivateKey
           \<lparr>ec_Version = 1, ec_PrivateKey = padded, ec_NamedCurveOID = [],
            ec_PublicKey = \<lparr>Bytes = 4 # xs @ ys, BitLength = 0\<rparr>\<rparr> = Inr inner
      \<and> inner = EncodedPrivateKey_layout padded None (4 # xs @ ys)
      \<and> asn1_Marshal_pkcs8Info
           \<lparr>p8_Version = 0,
            p8_PrivateKeyAlgorithm = [[1, 2, 840, 10045, 2, 1], [1, 2, 156, 10197, 1, 301]],
            p8_PrivateKey = inner\<rparr> = Inr outer
      \<and> outer = OuterKeyContainer_layout inner
      \<and> PrivateKeyToPEM sample_env [] (Some sample_key) []
          = Ok (pem_EncodeToMemory sample_env
                  \<lparr>pem_Type = ''PRIVATE KEY'', pem_Headers = [], pem_Bytes = outer\<rparr>))"
  using sample_key_valid plain_private_export_shape [OF sample_key_valid, of sample_env "[]"]
  by (rule conjI)

text \<open>
  C5. For every valid key and non-empty password the exporter marshals the standalone
  \<^verbatim>\<open>ecPrivateKey\<close> with version 1, the named curve \<open>1.2.156.10197.1.301\<close> and the public
  point, and hands exactly these bytes, with no PKCS8 container around them, to
  \<^verbatim>\<open>EncryptPEMBlock\<close> with block type \<open>PRIVATE KEY\<close>, the password and the AES-256
  cipher; the output is the PEM text of the block that comes back. Under the cipher's
  contract that block is of type \<open>PRIVATE KEY\<close>, is marked encrypted, and decrypts
  under the password to the marshalled bytes.
\<close>

theorem encrypted_private_export_shape:
  assumes "valid_private_key sm2 k" and "pwd \<noteq> []"
  shows "\<exists>padded xs ys raw.
      paddedPrivateKey k = Some padded
      \<and> length xs = field_bytes sm2 \<and> length ys = field_bytes sm2
      \<and> big_SetBytes xs = X k \<and> big_SetBytes ys = Y k
      \<and> elliptic_Marshal (Curve k) (X k) (Y k) = Some (4 # xs @ ys)
      \<and> asn1_Marshal_ecPrivateKey
           \<lparr>ec_Version = 1, ec_PrivateKey = padded,
            ec_NamedCurveOID = [1, 2, 156, 10197, 1, 301],
            ec_PublicKey = \<lparr>Bytes = 4 # xs @ ys, BitLength = 0\<rparr>\<rparr> = Inr raw
      \<and> raw = EncodedPrivateKey_layout padded (Some sm2_oid_octets) (4 # xs @ ys)
      \<and> PrivateKeyToPEM env rnd (Some k) pwd
          = (case EncryptPEMBlock env rnd ''PRIVATE KEY'' raw pwd PEMCipherAES256 of
               Inl e \<Rightarrow> Err (LibraryError e)
             | Inr block \<Rightarrow> Ok (pem_EncodeToMemory env block))
      \<and> (collab_contract env \<longrightarrow>
           (\<exists>b. EncryptPEMBlock env rnd ''PRIVATE KEY'' raw pwd PEMCipherAES256 = Inr b
              \<and> PrivateKeyToPEM env rnd (Some k) pwd = Ok (pem_EncodeToMemory env b)
              \<and> pem_Type b = ''PRIVATE KEY''
              \<and> IsEncryptedPEMBlock env b
              \<and> DecryptPEMBlock env b pwd = Inr raw))"
proof -
  let ?padded = "fixed_width (order_bytes sm2) (D k)"
  let ?xs = "fixed_width (field_bytes sm2) (X k)"
  let ?ys = "fixed_width (field_bytes sm2) (Y k)"
  let ?raw = "EncodedPrivateKey_layout ?padded (Some sm2_oid_octets) (4 # ?xs @ ?ys)"
  have e: "exportable k" using assms(1) by (rule valid_exportable)
  have cu: "Curve k = sm2"
    using assms(1) by (simp add: valid_private_key_def valid_public_key_def)
  note vp = valid_point_parts [OF assms(1)]
  have a: "paddedPrivateKey k = Some ?padded" using exportable_padded [OF e] cu by simp
  have m: "asn1_Marshal_ecPrivateKey
           \<lparr>ec_Version = 1, ec_PrivateKey = ?padded,
            ec_NamedCurveOID = [1, 2, 156, 10197, 1, 301],
            ec_PublicKey = \<lparr>Bytes = 4 # ?xs @ ?ys, BitLength = 0\<rparr>\<rparr> = Inr ?raw"
    using marshal_ec_named_layout [of "4 # ?xs @ ?ys" ?padded]
    by (simp add: oidNamedCurveSm2_def)
  have ex: "PrivateKeyToPEM env rnd (Some k) pwd
          = (case EncryptPEMBlock env rnd ''PRIVATE KEY'' ?raw pwd PEMCipherAES256 of
               Inl e \<Rightarrow> Err (LibraryError e)
             | Inr block \<Rightarrow> Ok (pem_EncodeToMemory env block))"
    using encrypted_export [OF e, of env rnd pwd] cu assms(2)
    by (simp add: PrivateKeyToPEM_def uncompressed_point_def)
  have co: "\<exists>b. EncryptPEMBlock env rnd ''PRIVATE KEY'' ?raw pwd PEMCipherAES256 = Inr b
              \<and> PrivateKeyToPEM env rnd (Some k) pwd = Ok (pem_EncodeToMemory env b)
              \<and> pem_Type b = ''PRIVATE KEY''
              \<and> IsEncryptedPEMBlock env b
              \<and> DecryptPEMBlock env b pwd = Inr ?raw"
    if "collab_contract env"
    using encrypted_export_contract [OF e that assms(2), of rnd] cu
    by (auto simp: uncompressed_point_def)
  from a vp m ex co show ?thesis by blast
qed

theorem encrypted_private_export_shape_witness:
  "valid_private_key sample_curve sample_key \<and> [7] \<noteq> ([] :: bytes)
   \<and> collab_contract sample_env
   \<and> (\<exists>padded xs ys raw b.
      paddedPrivateKey sample_key = Some padded
      \<and> asn1_Marshal_ecPrivateKey
           \<lparr>ec_Version = 1, ec_PrivateKey = padded,
            ec_NamedCurveOID = [1, 2, 156, 10197, 1, 301],
            ec_PublicKey = \<lparr>Bytes = 4 # xs @ ys, BitLength = 0\<rparr>\<rparr> = Inr raw
      \<and> raw = EncodedPrivateKey_layout padded (Some sm2_oid_octets) (4 # xs @ ys)
      \<and> EncryptPEMBlock sample_env [] ''PRIVATE KEY'' raw [7] PEMCipherAES256 = Inr b
      \<and> PrivateKeyToPEM sample_env [] (Some sample_key) [7]
          = Ok (pem_EncodeToMemory sample_env b)
      \<and> pem_Type b = ''PRIVATE KEY''
      \<and> IsEncryptedPEMBlock sample_env b
      \<and> DecryptPEMBlock sample_env b [7] = Inr raw)"
proof -
  have p: "[7] \<noteq> ([] :: bytes)" by simp
  from encrypted_private_export_shape [OF sample_key_valid p, of sample_env "[]"]
    sample_contract
  have "\<exists>padded xs ys raw b.
      paddedPrivateKey sample_key = Some padded
      \<and> asn1_Marshal_ecPrivateKey
           \<lparr>ec_Version = 1, ec_PrivateKey = padded,
            ec_NamedCurveOID = [1, 2, 156, 10197, 1, 301],
            ec_PublicKey = \<lparr>Bytes = 4 # xs @ ys, BitLength = 0\<rparr>\<rparr> = Inr raw
      \<and> raw = EncodedPrivateKey_layout padded (Some sm2_oid_octets) (4 # xs @ ys)
      \<and> EncryptPEMBlock sample_env [] ''PRIVATE KEY'' raw [7] PEMCipherAES256 = Inr b
      \<and> PrivateKeyToPEM sample_env [] (Some sample_key) [7]
          = Ok (pem_EncodeToMemory sample_env b)
      \<and> pem_Type b = ''PRIVATE KEY''
      \<and> IsEncryptedPEMBlock sample_env b
      \<and> DecryptPEMBlock sample_env b [7] = Inr raw"
    by blast
  with sample_key_valid p sample_contract show ?thesis by blast
qed

section \<open>The importers: failures and the type check\<close>






lemma parse_p256_pkcs8:
  "ParsePKCS8PrivateKey_spec c p256_pkcs8_der
     = Inr (OtherKey [[1, 2, 840, 10045, 2, 1], [1, 2, 840, 10045, 3, 1, 7]])"
  by (simp add: ParsePKCS8PrivateKey_spec_def parse_pkcs8Info_def p256_pkcs8_der_def
      der_expect_def der_read_def der_read_length_def tag_defs int_of_content_def
      oid_of_content_def oidPublicKeyECDSA_def oidNamedCurveSm2_def)

lemma parse_p256_pkix:
  "ParsePKIXPublicKey_spec c p256_pkix_der
     = Inr (OtherKey [[1, 2, 840, 10045, 2, 1], [1, 2, 840, 10045, 3, 1, 7]])"
  by (simp add: ParsePKIXPublicKey_spec_def parse_publicKeyInfo_def p256_pkix_der_def
      der_expect_def der_read_def der_read_length_def tag_defs bitstring_of_content_def
      oid_of_content_def oidPublicKeyECDSA_def oidNamedCurveSm2_def)


text \<open>
  C7. After the DER payload (the block's bytes, or what \<^verbatim>\<open>DecryptPEMBlock\<close> returned
  for an encrypted block) has parsed, both importers check the kind of the key: a
  parsed key that is not of the SM2 kind gives \<open>TypeMismatch\<close> and no key, and a key is
  returned exactly when the parser produced that key as an SM2 key.
\<close>

theorem importer_type_check:
  assumes "raw \<noteq> []" and "pem_Decode env raw = Some b"
    and "(\<not> IsEncryptedPEMBlock env b \<and> der = pem_Bytes b)
         \<or> (IsEncryptedPEMBlock env b \<and> pwd \<noteq> [] \<and> DecryptPEMBlock env b pwd = Inr der)"
  shows "(ParsePKCS8PrivateKey env der = Inr key \<and> (\<forall>k. key \<noteq> SM2PrivateKey k) \<longrightarrow>
            PEMtoPrivateKey env raw pwd = Inl TypeMismatch)
         \<and> (PEMtoPrivateKey env raw pwd = Inr k \<longleftrightarrow>
              ParsePKCS8PrivateKey env der = Inr (SM2PrivateKey k))
         \<and> (ParsePKIXPublicKey env der = Inr key \<and> (\<forall>q. key \<noteq> SM2PublicKey q) \<longrightarrow>
            PEMtoPublicKey env raw pwd = Inl TypeMismatch)
         \<and> (PEMtoPublicKey env raw pwd = Inr q \<longleftrightarrow>
              ParsePKIXPublicKey env der = Inr (SM2PublicKey q))"
proof -
  have priv: "PEMtoPrivateKey env raw pwd =
      (case ParsePKCS8PrivateKey env der of
         Inl e \<Rightarrow> Inl (LibraryError e)
       | Inr key \<Rightarrow> (case key of SM2PrivateKey k \<Rightarrow> Inr k | _ \<Rightarrow> Inl TypeMismatch))"
    using assms by (auto simp: PEMtoPrivateKey_def)
  have pub: "PEMtoPublicKey env raw pwd =
      (case ParsePKIXPublicKey env der of
         Inl e \<Rightarrow> Inl (LibraryError e)
       | Inr key \<Rightarrow> (case key of SM2PublicKey q \<Rightarrow> Inr q | _ \<Rightarrow> Inl TypeMismatch))"
    using assms by (auto simp: PEMtoPublicKey_def)
  have a: "ParsePKCS8PrivateKey env der = Inr key \<and> (\<forall>k. key \<noteq> SM2PrivateKey k) \<longrightarrow>
            PEMtoPrivateKey env raw pwd = Inl TypeMismatch"
    by (cases key) (simp_all add: priv)
  have b: "PEMtoPrivateKey env raw pwd = Inr k \<longleftrightarrow>
              ParsePKCS8PrivateKey env der = Inr (SM2PrivateKey k)"
  proof (cases "ParsePKCS8PrivateKey env der")
    case (Inl e)
    then show ?thesis by (simp add: priv)
  next
    case (Inr key')
    then show ?thesis by (cases key') (simp_all add: priv)
  qed
  have c: "ParsePKIXPublicKey env der = Inr key \<and> (\<forall>q. key \<noteq> SM2PublicKey q) \<longrightarrow>
            PEMtoPublicKey env raw pwd = Inl TypeMismatch"
    by (cases key) (simp_all add: pub)
  have d: "PEMtoPublicKey env raw pwd = Inr q \<longleftrightarrow>
              ParsePKIXPublicKey env der = Inr (SM2PublicKey q)"
  proof (cases "ParsePKIXPublicKey env der")
    case (Inl e)
    then show ?thesis by (simp add: pub)
  next
    case (Inr key')
    then show ?thesis by (cases key') (simp_all add: pub)
  qed
  from a b c d show ?thesis by blast
qed



theorem importer_type_check_witness:
  "pem_EncodeToMemory sample_env (plain_block ''PRIVATE KEY'' p256_pkcs8_der) \<noteq> []
   \<and> pem_Decode sample_env
        (pem_EncodeToMemory sample_env (plain_block ''PRIVATE KEY'' p256_pkcs8_der))
       = Some (plain_block ''PRIVATE KEY'' p256_pkcs8_der)
   \<and> \<not> IsEncryptedPEMBlock sample_env (plain_block ''PRIVATE KEY'' p256_pkcs8_der)
   \<and> ParsePKCS8PrivateKey sample_env p256_pkcs8_der
       = Inr (OtherKey [[1, 2, 840, 10045, 2, 1], [1, 2, 840, 10045, 3, 1, 7]])
   \<and> PEMtoPrivateKey sample_env
        (pem_EncodeToMemory sample_env (plain_block ''PRIVATE KEY'' p256_pkcs8_der)) []
       = Inl TypeMismatch
   \<and> ParsePKIXPublicKey sample_env p256_pkix_der
       = Inr (OtherKey [[1, 2, 840, 10045, 2, 1], [1, 2, 840, 10045, 3, 1, 7]])
   \<and> PEMtoPublicKey sample_env
        (pem_EncodeToMemory sample_env (plain_block ''PUBLIC KEY'' p256_pkix_der)) []
       = Inl TypeMismatch"
proof -
  let ?b = "plain_block ''PRIVATE KEY'' p256_pkcs8_der"
  let ?raw = "pem_EncodeToMemory sample_env ?b"
  have f: "?raw \<noteq> []" and d: "pem_Decode sample_env ?raw = Some ?b"
    using sample_pem_faithful [of ?b] by (simp_all add: pem_faithful_def)
  have i: "\<not> IsEncryptedPEMBlock sample_env ?b"
    by (simp add: sample_env_def sample_IsEncryptedPEMBlock_def plain_block_def)
  have p: "ParsePKCS8PrivateKey sample_env p256_pkcs8_der
             = Inr (OtherKey [[1, 2, 840, 10045, 2, 1], [1, 2, 840, 10045, 3, 1, 7]])"
    by (simp add: sample_env_def parse_p256_pkcs8)
  have b: "p256_pkcs8_der = pem_Bytes ?b" by (simp add: plain_block_def)
  have priv: "PEMtoPrivateKey sample_env ?raw [] = Inl TypeMismatch"
    using importer_type_check [where raw = ?raw and env = sample_env and b = ?b
        and der = p256_pkcs8_der and pwd = "[]"
        and key = "OtherKey [[1, 2, 840, 10045, 2, 1], [1, 2, 840, 10045, 3, 1, 7]]"]
      f d i p b
    by simp
  let ?c = "plain_block ''PUBLIC KEY'' p256_pkix_der"
  let ?raw' = "pem_EncodeToMemory sample_env ?c"
  have f': "?raw' \<noteq> []" and d': "pem_Decode sample_env ?raw' = Some ?c"
    using sample_pem_faithful [of ?c] by (simp_all add: pem_faithful_def)
  have i': "\<not> IsEncryptedPEMBlock sample_env ?c"
    by (simp add: sample_env_def sample_IsEncryptedPEMBlock_def plain_block_def)
  have p': "ParsePKIXPublicKey sample_env p256_pkix_der
             = Inr (OtherKey [[1, 2, 840, 10045, 2, 1], [1, 2, 840, 10045, 3, 1, 7]])"
    by (simp add: sample_env_def parse_p256_pkix)
  have b': "p256_pkix_der = pem_Bytes ?c" by (simp add: plain_block_def)
  have pub: "PEMtoPublicKey sample_env ?raw' [] = Inl TypeMismatch"
    using importer_type_check [where raw = ?raw' and env = sample_env and b = ?c
        and der = p256_pkix_der and pwd = "[]"
        and key = "OtherKey [[1, 2, 840, 10045, 2, 1], [1, 2, 840, 10045, 3, 1, 7]]"]
      f' d' i' p' b'
    by simp
  from f d i p priv p' pub show ?thesis by blast
qed


section \<open>The empty password\<close>

text \<open>
  C8, as stated: for every non-null key the private-key exporter called with an empty
  password produces the plain PEM output. It does not for a key whose scalar is longer
  than the curve order: the padding copy panics before anything is written.
\<close>

theorem empty_password_export_counterexample:
  "PrivateKeyToPEM sample_env [] (Some oversized_key) [] = Panic"
  by (rule not_exportable_export(1) [OF oversized_not_exportable])

text \<open>
  C8, amended: for every non-null private key whose scalar and coordinates fit their
  byte widths (every valid key does), the private-key exporter called with an empty
  password takes the plain path and returns the PEM text of a block of type
  \<open>PRIVATE KEY\<close> without headers; a key that does not fit makes it panic. For every
  non-null public key, \<^verbatim>\<open>PublicKeyToEncryptedPEM\<close> called with an empty password returns
  the \<open>MissingPassword\<close> error and no output.
\<close>

theorem empty_password_asymmetry:
  "(exportable k \<longrightarrow>
      (\<exists>der. PrivateKeyToPEM env rnd (Some k) []
               = Ok (pem_EncodeToMemory env
                       \<lparr>pem_Type = ''PRIVATE KEY'', pem_Headers = [], pem_Bytes = der\<rparr>)))
   \<and> (\<not> exportable k \<longrightarrow> PrivateKeyToPEM env rnd (Some k) [] = Panic)
   \<and> PublicKeyToEncryptedPEM env rnd (Some q) [] = Err MissingPassword"
proof -
  have a: "\<exists>der. PrivateKeyToPEM env rnd (Some k) []
               = Ok (pem_EncodeToMemory env
                       \<lparr>pem_Type = ''PRIVATE KEY'', pem_Headers = [], pem_Bytes = der\<rparr>)"
    if "exportable k"
    using plain_export [OF that, of env rnd] by (auto simp: plain_block_def)
  have b: "PrivateKeyToPEM env rnd (Some k) [] = Panic" if "\<not> exportable k"
    using that by (rule not_exportable_export(1))
  have c: "PublicKeyToEncryptedPEM env rnd (Some q) [] = Err MissingPassword"
    by (simp add: PublicKeyToEncryptedPEM_def)
  from a b c show ?thesis by blast
qed

theorem empty_password_asymmetry_witness:
  "exportable sample_key \<and> \<not> exportable oversized_key
   \<and> (\<exists>der. PrivateKeyToPEM sample_env [] (Some sample_key) []
               = Ok (pem_EncodeToMemory sample_env
                       \<lparr>pem_Type = ''PRIVATE KEY'', pem_Headers = [], pem_Bytes = der\<rparr>))
   \<and> PrivateKeyToPEM sample_env [] (Some oversized_key) [] = Panic
   \<and> PublicKeyToEncryptedPEM sample_env [] (Some sample_public_key) []
       = Err MissingPassword"
  using empty_password_asymmetry [of sample_key sample_env "[]" sample_public_key]
    empty_password_asymmetry [of oversized_key sample_env "[]" sample_public_key]
    sample_key_exportable oversized_not_exportable
  by blast

section \<open>Public keys: the round trips\<close>

text \<open>
  C9. For every valid SM2 public key, exporting with the empty password and importing
  with the empty password returns the key itself (the same \<open>X\<close>, \<open>Y\<close> and curve), and
  so does exporting and importing under any non-empty password.
\<close>

theorem public_round_trip:
  assumes "valid_public_key sm2 (q :: public_key)" and "collab_contract env"
    and "x509_as_specified env sm2"
  shows "(\<exists>pem. PublicKeyToPEM env rnd (Some q) [] = Ok pem
            \<and> PEMtoPublicKey env pem [] = Inr q)
         \<and> (pwd \<noteq> [] \<longrightarrow>
              (\<exists>pem. PublicKeyToPEM env rnd (Some q) pwd = Ok pem
                 \<and> PEMtoPublicKey env pem pwd = Inr q))"
  using assms by (rule public_round_trips)

theorem public_round_trip_witness:
  "valid_public_key sample_curve sample_public_key
   \<and> collab_contract sample_env
   \<and> x509_as_specified sample_env sample_curve
   \<and> [7] \<noteq> ([] :: bytes)
   \<and> (\<exists>pem. PublicKeyToPEM sample_env [] (Some sample_public_key) [] = Ok pem
         \<and> PEMtoPublicKey sample_env pem [] = Inr sample_public_key)
   \<and> (\<exists>pem. PublicKeyToPEM sample_env [] (Some sample_public_key) [7] = Ok pem
         \<and> PEMtoPublicKey sample_env pem [7] = Inr sample_public_key)"
proof -
  have p: "[7] \<noteq> ([] :: bytes)" by simp
  show ?thesis
    using public_round_trip
      [OF sample_public_key_valid sample_contract sample_x509, of "[]" "[7]"]
      sample_public_key_valid sample_contract sample_x509 p
    by blast
qed

section \<open>The padding copy stays in bounds only for a scalar that fits\<close>

text \<open>
  C10. In both private-key export paths the slice expression of the padding copy is in
  bounds exactly when \<open>D\<close> has no more bytes than the curve order. A scalar in
  \<open>[1, N-1]\<close> always fits, so that under this precondition an export can panic only in
  the point encoding, and for a valid key it does not panic at all. A scalar with more
  bytes than the order makes both exporters panic: no error value is returned.
\<close>

theorem padding_copy_bounds:
  "(paddedPrivateKey k \<noteq> None \<longleftrightarrow> length (big_Bytes (D k)) \<le> order_bytes (Curve k))
   \<and> (1 \<le> D k \<and> D k < N (Params (Curve k)) \<longrightarrow>
        paddedPrivateKey k \<noteq> None
        \<and> (PrivateKeyToPEM env rnd (Some k) pwd = Panic \<longrightarrow>
             elliptic_Marshal (Curve k) (X k) (Y k) = None)
        \<and> (PrivateKeyToEncryptedPEM env rnd (Some k) pwd = Panic \<longrightarrow>
             elliptic_Marshal (Curve k) (X k) (Y k) = None))
   \<and> (valid_private_key sm2 k \<longrightarrow>
        PrivateKeyToPEM env rnd (Some k) pwd \<noteq> Panic
        \<and> PrivateKeyToEncryptedPEM env rnd (Some k) pwd \<noteq> Panic)
   \<and> (order_bytes (Curve k) < length (big_Bytes (D k)) \<longrightarrow>
        PrivateKeyToPEM env rnd (Some k) pwd = Panic
        \<and> PrivateKeyToEncryptedPEM env rnd (Some k) pwd = Panic)"
proof -
  have a: "paddedPrivateKey k \<noteq> None \<longleftrightarrow> length (big_Bytes (D k)) \<le> order_bytes (Curve k)"
    by (simp add: paddedPrivateKey_def padded_copy_def)
  have enc: "PrivateKeyToEncryptedPEM env rnd (Some k) pwd \<noteq> Panic" if "exportable k"
    unfolding encrypted_export [OF that] by (simp split: sum.splits)
  have pln: "PrivateKeyToPEM env rnd (Some k) pwd \<noteq> Panic" if "exportable k"
  proof (cases "pwd = []")
    case True
    then show ?thesis using plain_export [OF that, of env rnd] by simp
  next
    case False
    then show ?thesis using enc [OF that] by (simp add: PrivateKeyToPEM_def)
  qed
  have b: "paddedPrivateKey k \<noteq> None
        \<and> (PrivateKeyToPEM env rnd (Some k) pwd = Panic \<longrightarrow>
             elliptic_Marshal (Curve k) (X k) (Y k) = None)
        \<and> (PrivateKeyToEncryptedPEM env rnd (Some k) pwd = Panic \<longrightarrow>
             elliptic_Marshal (Curve k) (X k) (Y k) = None)"
    if r: "1 \<le> D k \<and> D k < N (Params (Curve k))"
  proof -
    from r have le: "length (big_Bytes (D k)) \<le> order_bytes (Curve k)"
      unfolding order_bytes_def by (intro scalar_fits_order) simp_all
    have ex: "exportable k" if m: "elliptic_Marshal (Curve k) (X k) (Y k) \<noteq> None"
    proof (rule ccontr)
      assume "\<not> exportable k"
      from not_exportable_panics [OF this] m a le show False by simp
    qed
    from a le pln enc ex show ?thesis by blast
  qed
  have c: "PrivateKeyToPEM env rnd (Some k) pwd \<noteq> Panic
        \<and> PrivateKeyToEncryptedPEM env rnd (Some k) pwd \<noteq> Panic"
    if "valid_private_key sm2 k"
    using pln enc valid_exportable [OF that] by blast
  have d: "PrivateKeyToPEM env rnd (Some k) pwd = Panic
        \<and> PrivateKeyToEncryptedPEM env rnd (Some k) pwd = Panic"
    if "order_bytes (Curve k) < length (big_Bytes (D k))"
  proof -
    from that have "\<not> exportable k" by (simp add: exportable_def)
    then show ?thesis by (simp add: not_exportable_export)
  qed
  from a b c d show ?thesis by blast
qed

theorem padding_copy_bounds_witness:
  "1 \<le> D sample_key \<and> D sample_key < N (Params (Curve sample_key))
   \<and> valid_private_key sample_curve sample_key
   \<and> paddedPrivateKey sample_key \<noteq> None
   \<and> PrivateKeyToPEM sample_env [] (Some sample_key) [] \<noteq> Panic
   \<and> PrivateKeyToEncryptedPEM sample_env [] (Some sample_key) [7] \<noteq> Panic
   \<and> order_bytes (Curve oversized_key) < length (big_Bytes (D oversized_key))
   \<and> PrivateKeyToPEM sample_env [] (Some oversized_key) [] = Panic
   \<and> PrivateKeyToEncryptedPEM sample_env [] (Some oversized_key) [7] = Panic"
  using padding_copy_bounds [of sample_key sample_env "[]" "[]" sample_curve]
    padding_copy_bounds [of sample_key sample_env "[]" "[7]" sample_curve]
    padding_copy_bounds [of oversized_key sample_env "[]" "[]" sample_curve]
    padding_copy_bounds [of oversized_key sample_env "[]" "[7]" sample_curve]
    sample_scalar_range sample_key_valid oversized_scalar
  by blast

end
